theory Spec2Isabelle
  imports Complex_Main
begin

section \<open>Python strings and the path functions of \<open>os.path\<close>\<close>

text \<open>
  The texture search of this repository lives in \<open>testing.py\<close>
  (\<open>MeshGUI.find_texture_file\<close>, \<open>MeshGUI.load_obj_with_textures\<close>) and, inlined, in
  \<open>new.py\<close> (\<open>comprehensive_mesh_analysis_and_load\<close>). Both are embedded here.

  A Python \<open>str\<close> is modelled as a \<open>string\<close>; a \<open>char\<close> stands for a code point
  below 256. The functions of \<open>os.path\<close> are those of \<open>posixpath\<close> (separator \<open>/\<close>,
  no drive letters); \<open>os.path.exists\<close> is a parameter, the existence state of the
  file system, so nothing is assumed about case sensitivity or path normalisation.
\<close>

datatype exn = IndexError | OSError | FileNotFoundError | ImageError

text \<open>\<open>s.startswith(p)\<close> and \<open>s.endswith(p)\<close>.\<close>

definition startswith :: "string \<Rightarrow> string \<Rightarrow> bool" where
  "startswith s p = (take (length p) s = p)"

definition endswith :: "string \<Rightarrow> string \<Rightarrow> bool" where
  "endswith s p = (length p \<le> length s \<and> drop (length s - length p) s = p)"

text \<open>\<open>s.rfind(c)\<close> for a single character: the index of its last occurrence, or -1.\<close>

definition rfind :: "string \<Rightarrow> char \<Rightarrow> int" where
  "rfind s c = (if c \<in> set s
                then int (length s) - 1 - int (length (takeWhile (\<lambda>x. x \<noteq> c) (rev s)))
                else - 1)"

text \<open>
  \<open>str.isspace\<close> on one character, for the code points below 256: TAB, LF, VT, FF, CR,
  the separators 0x1C to 0x1F, space, NEL (0x85) and the no-break space (0xA0).
\<close>

definition isspace :: "char \<Rightarrow> bool" where
  "isspace c = ((of_char c :: nat) \<in> {9, 10, 11, 12, 13, 28, 29, 30, 31, 32, 133, 160})"

text \<open>\<open>s.strip()\<close>: leading and trailing whitespace removed.\<close>

definition strip :: "string \<Rightarrow> string" where
  "strip s = rev (dropWhile isspace (rev (dropWhile isspace s)))"

text \<open>\<open>s.rstrip('/')\<close>.\<close>

definition rstrip_sep :: "string \<Rightarrow> string" where
  "rstrip_sep s = rev (dropWhile (\<lambda>c. c = CHR ''/'') (rev s))"

text \<open>
  \<open>s.split(' ', 1)\<close>: at most one split, at the first space. The result has two
  elements when \<open>s\<close> contains a space and one otherwise.
\<close>

definition split_space1 :: "string \<Rightarrow> string list" where
  "split_space1 s =
     (if CHR '' '' \<in> set s
      then [takeWhile (\<lambda>c. c \<noteq> CHR '' '') s, tl (dropWhile (\<lambda>c. c \<noteq> CHR '' '') s)]
      else [s])"

text \<open>\<open>xs[i]\<close> for a non-negative index; out of range raises \<open>IndexError\<close>.\<close>

definition getitem :: "'a list \<Rightarrow> nat \<Rightarrow> exn + 'a" where
  "getitem xs i = (if i < length xs then Inr (xs ! i) else Inl IndexError)"

text \<open>
  \<open>posixpath.join(a, b)\<close>:
  \<^verbatim>\<open>
    if b.startswith(sep) or not path: path = b
    elif path.endswith(sep):          path += b
    else:                             path += sep + b
  \<close>
\<close>

definition join :: "string \<Rightarrow> string \<Rightarrow> string" where
  "join a b =
     (if startswith b ''/'' \<or> a = [] then b
      else if endswith a ''/'' then a @ b
      else a @ ''/'' @ b)"

text \<open>\<open>posixpath.basename(p)\<close>: \<open>i = p.rfind(sep) + 1; return p[i:]\<close>.\<close>

definition basename :: "string \<Rightarrow> string" where
  "basename p = drop (nat (rfind p CHR ''/'' + 1)) p"

text \<open>
  \<open>posixpath.dirname(p)\<close>:
  \<^verbatim>\<open>
    i = p.rfind(sep) + 1
    head = p[:i]
    if head and head != sep*len(head): head = head.rstrip(sep)
    return head
  \<close>
\<close>

definition dirname :: "string \<Rightarrow> string" where
  "dirname p =
     (let head = take (nat (rfind p CHR ''/'' + 1)) p
      in if head \<noteq> [] \<and> head \<noteq> replicate (length head) CHR ''/''
         then rstrip_sep head else head)"

text \<open>
  \<open>posixpath.splitext(p)\<close> (\<open>genericpath._splitext\<close> with \<open>sep = '/'\<close>, no \<open>altsep\<close>):
  \<^verbatim>\<open>
    sepIndex = p.rfind(sep)
    dotIndex = p.rfind(extsep)
    if dotIndex > sepIndex:
        filenameIndex = sepIndex + 1
        while filenameIndex < dotIndex:
            if p[filenameIndex] != extsep:
                return p[:dotIndex], p[dotIndex:]
            filenameIndex += 1
    return p, p[:0]
  \<close>
  The loop finds a character other than the dot between the last separator and the
  last dot; it is the test \<open>list_ex\<close> on that slice.
\<close>

definition splitext :: "string \<Rightarrow> string \<times> string" where
  "splitext p =
     (let sepIndex = rfind p CHR ''/'';
          dotIndex = rfind p CHR ''.''
      in if dotIndex > sepIndex \<and>
            list_ex (\<lambda>c. c \<noteq> CHR ''.'')
              (take (nat (dotIndex - (sepIndex + 1))) (drop (nat (sepIndex + 1)) p))
         then (take (nat dotIndex) p, drop (nat dotIndex) p)
         else (p, []))"


section \<open>Meshes, the environment and the trace of effects\<close>

text \<open>
  The geometry library (Open3D) owns the mesh. The model keeps what the repository's
  code reads or writes: the geometry as one opaque value (vertices, triangles and
  vertex normals), the list of textures, and the uniform colour painted on the mesh.
\<close>

type_synonym color = "rat \<times> rat \<times> rat"

record ('g, 'i) mesh =
  geometry :: 'g
  textures :: "'i list"
  painted :: "color option"

text \<open>The colour literal \<open>[0.7, 0.5, 0.3]\<close> of both files.\<close>

definition skin_tone :: color where
  "skin_tone = (7 / 10, 5 / 10, 3 / 10)"

text \<open>
  What the code asks of the outside world:
  \<^item> \<open>path_exists\<close> is \<open>os.path.exists\<close>;
  \<^item> \<open>open_lines p\<close> is \<open>open(p, 'r', encoding='utf-8', errors='ignore')\<close> iterated line
    by line: the lines delivered, and whether an exception ends the iteration after
    them (a file that cannot be opened delivers no line and fails);
  \<^item> \<open>read_triangle_mesh\<close>, \<open>compute_vertex_normals\<close> and \<open>read_image\<close> are the calls
    into Open3D; \<open>read_image\<close> may raise, the code catches it.
\<close>

record ('g, 'i) env =
  path_exists :: "string \<Rightarrow> bool"
  open_lines :: "string \<Rightarrow> string list \<times> bool"
  read_triangle_mesh :: "string \<Rightarrow> ('g, 'i) mesh"
  compute_vertex_normals :: "'g \<Rightarrow> 'g"
  read_image :: "string \<Rightarrow> 'i option"

text \<open>
  Messages of \<open>self.log\<close> (\<open>testing.py\<close>) and \<open>print\<close> (\<open>new.py\<close>), one constructor for
  each format string, with the values it interpolates (the vertex and triangle counts,
  which belong to the geometry, are left out). \<open>Step n\<close> is the heading of step \<open>n\<close>
  that \<open>new.py\<close> prints.
\<close>

datatype msg =
    LoadingObj string
  | FoundMaterialLibrary string
  | WarnObj exn
  | FoundTextureRef string
  | WarnMtl exn
  | LoadingMesh
  | MeshLoaded
  | ManualLoading
  | TextureLoaded string
  | TextureError string exn
  | TextureNotFound string
  | ReadyTextured
  | NoTextures
  | LoadError exn
  | OpeningViewer
  | ViewerClosed
  | Banner
  | Step nat
  | HasMaterialLibrary bool
  | HasTextureCoords bool
  | Reading string
  | MtlNotFound string
  | PathFound string
  | PathNotFound string
  | Vertices
  | Triangles
  | AutoLoaded nat
  | ManualLoaded
  | ManualError exn
  | Displaying bool

text \<open>
  The effects of a run, in the order in which they happen: a message logged, a call of
  \<open>os.path.exists\<close>, a file opened for reading, a call of the mesh or image reader, a
  mesh handed to the viewer.
\<close>

datatype ('g, 'i) event =
    Log msg
  | Exists string
  | Open string
  | ReadMesh string
  | ReadImage string
  | Show "('g, 'i) mesh"


section \<open>The texture resolver (\<open>testing.py\<close>, \<open>MeshGUI.find_texture_file\<close>)\<close>

definition extensions :: "string list" where
  "extensions = [''.jpg'', ''.jpeg'', ''.png'', ''.bmp'', ''.tga'', ''.JPG'', ''.JPEG'', ''.PNG'']"

text \<open>
  \<^verbatim>\<open>
    possible_paths = [os.path.join(obj_dir, texture_ref),
                      os.path.join(obj_dir, os.path.basename(texture_ref))]
    base_name = os.path.splitext(texture_ref)[0]
    for ext in extensions:
        possible_paths.append(os.path.join(obj_dir, base_name + ext))
  \<close>
\<close>

definition possible_paths :: "string \<Rightarrow> string \<Rightarrow> string list" where
  "possible_paths obj_dir texture_ref =
     (let base_name = fst (splitext texture_ref)
      in foldl (\<lambda>paths ext. paths @ [join obj_dir (base_name @ ext)])
           [join obj_dir texture_ref, join obj_dir (basename texture_ref)]
           extensions)"

text \<open>
  \<^verbatim>\<open>
    for test_path in possible_paths:
        if os.path.exists(test_path):
            return test_path
    return None
  \<close>
  The first component is the list of calls of \<open>os.path.exists\<close> that the loop makes.
\<close>

fun first_existing :: "(string \<Rightarrow> bool) \<Rightarrow> string list \<Rightarrow> string list \<times> string option" where
  "first_existing ex [] = ([], None)"
| "first_existing ex (test_path # rest) =
     (if ex test_path then ([test_path], Some test_path)
      else (let (probed, found) = first_existing ex rest in (test_path # probed, found)))"

definition find_texture_file :: "(string \<Rightarrow> bool) \<Rightarrow> string \<Rightarrow> string \<Rightarrow> string list \<times> string option" where
  "find_texture_file ex obj_dir texture_ref = first_existing ex (possible_paths obj_dir texture_ref)"


section \<open>Loops over lines, with exceptions\<close>

text \<open>
  A \<open>for\<close> loop inside \<open>try\<close>: the body runs on each element in turn; when it raises,
  the loop stops there, and what the body had assigned before raising stays assigned.
  The result is the effects, the variables and the exception, if any. The bodies of
  the loops over lines have no effect but their messages.
\<close>

fun for_each ::
  "('s \<Rightarrow> 'a \<Rightarrow> 'e list \<times> 's \<times> exn option) \<Rightarrow> 's \<Rightarrow> 'a list \<Rightarrow> 'e list \<times> 's \<times> exn option" where
  "for_each body s [] = ([], s, None)"
| "for_each body s (x # xs) =
     (case body s x of
        (t, s', Some e) \<Rightarrow> (t, s', Some e)
      | (t, s', None) \<Rightarrow> (case for_each body s' xs of (t', r) \<Rightarrow> (t @ t', r)))"

text \<open>
  \<open>with open(...) as f: for line in f: ...\<close> on a file that delivers the lines \<open>ls\<close>:
  the body runs on each line; if the file fails after them, \<open>OSError\<close> is raised then.
\<close>

definition for_lines ::
  "('s \<Rightarrow> string \<Rightarrow> 'e list \<times> 's \<times> exn option) \<Rightarrow> 's \<Rightarrow> string list \<times> bool \<Rightarrow> 'e list \<times> 's \<times> exn option" where
  "for_lines body s f =
     (case for_each body s (fst f) of
        (t, s', Some e) \<Rightarrow> (t, s', Some e)
      | (t, s', None) \<Rightarrow> (t, s', if snd f then Some OSError else None))"


section \<open>\<open>testing.py\<close>: \<open>MeshGUI.load_obj_with_textures\<close>\<close>

text \<open>
  The variables of the scan of the OBJ file. \<open>has_mtl\<close> exists in \<open>new.py\<close> only;
  \<open>testing.py\<close> leaves it as it is.
\<close>

record obj_vars =
  mtl_files :: "string list"
  has_mtl :: bool
  has_texture_coords :: bool

definition obj_vars0 :: obj_vars where
  "obj_vars0 = \<lparr>mtl_files = [], has_mtl = False, has_texture_coords = False\<rparr>"

text \<open>
  Lines 161 to 167, the body of the loop over the lines of the OBJ file:
  \<^verbatim>\<open>
    line = line.strip()
    if line.startswith('mtllib'):
        mtl_file = line.split(' ', 1)[1]
        mtl_files.append(mtl_file)
        self.log(f"Found material library: {mtl_file}")
    elif line.startswith('vt'):
        has_texture_coords = True
  \<close>
\<close>

definition scan_obj_line :: "obj_vars \<Rightarrow> string \<Rightarrow> msg list \<times> obj_vars \<times> exn option" where
  "scan_obj_line v raw =
     (let line = strip raw in
      if startswith line ''mtllib'' then
        (case getitem (split_space1 line) 1 of
           Inl e \<Rightarrow> ([], v, Some e)
         | Inr mtl_file \<Rightarrow>
             ([FoundMaterialLibrary mtl_file],
              v\<lparr>mtl_files := mtl_files v @ [mtl_file]\<rparr>, None))
      else if startswith line ''vt'' then ([], v\<lparr>has_texture_coords := True\<rparr>, None)
      else ([], v, None))"

text \<open>Lines 155 to 169: the scan of the OBJ file inside \<open>try\<close>, and its handler.\<close>

definition analyze_obj :: "('g, 'i) env \<Rightarrow> string \<Rightarrow> ('g, 'i) event list \<times> obj_vars" where
  "analyze_obj env obj_path =
     (case for_lines scan_obj_line obj_vars0 (open_lines env obj_path) of
        (t, v, Some e) \<Rightarrow> (Open obj_path # map Log t @ [Log (WarnObj e)], v)
      | (t, v, None) \<Rightarrow> (Open obj_path # map Log t, v))"

text \<open>
  Lines 180 to 185, the body of the loop over the lines of a material file:
  \<^verbatim>\<open>
    line = line.strip()
    if line.startswith('map_Kd'):
        texture_file = line.split(' ', 1)[1]
        texture_paths.append(texture_file)
        self.log(f"Found texture reference: {texture_file}")
  \<close>
\<close>

definition scan_mtl_line :: "string list \<Rightarrow> string \<Rightarrow> msg list \<times> string list \<times> exn option" where
  "scan_mtl_line texture_paths raw =
     (let line = strip raw in
      if startswith line ''map_Kd'' then
        (case getitem (split_space1 line) 1 of
           Inl e \<Rightarrow> ([], texture_paths, Some e)
         | Inr texture_file \<Rightarrow>
             ([FoundTextureRef texture_file], texture_paths @ [texture_file], None))
      else ([], texture_paths, None))"

text \<open>Lines 175 to 187, the body of the loop over \<open>mtl_files\<close>.\<close>

definition read_mtl ::
  "('g, 'i) env \<Rightarrow> string \<Rightarrow> string list \<Rightarrow> string \<Rightarrow> ('g, 'i) event list \<times> string list" where
  "read_mtl env obj_dir texture_paths mtl_file =
     (let mtl_path = join obj_dir mtl_file in
      if path_exists env mtl_path then
        (case for_lines scan_mtl_line texture_paths (open_lines env mtl_path) of
           (t, tp, Some e) \<Rightarrow>
             (Exists mtl_path # Open mtl_path # map Log t @ [Log (WarnMtl e)], tp)
         | (t, tp, None) \<Rightarrow> (Exists mtl_path # Open mtl_path # map Log t, tp))
      else ([Exists mtl_path], texture_paths))"

fun read_mtl_files ::
  "('g, 'i) env \<Rightarrow> string \<Rightarrow> string list \<Rightarrow> string list \<Rightarrow> ('g, 'i) event list \<times> string list" where
  "read_mtl_files env obj_dir texture_paths [] = ([], texture_paths)"
| "read_mtl_files env obj_dir texture_paths (mtl_file # rest) =
     (case read_mtl env obj_dir texture_paths mtl_file of
        (t, tp) \<Rightarrow>
          (case read_mtl_files env obj_dir tp rest of (t', tp') \<Rightarrow> (t @ t', tp')))"

text \<open>Steps 1 and 2 (lines 154 to 187): from the OBJ file to the texture references.\<close>

definition find_references :: "('g, 'i) env \<Rightarrow> string \<Rightarrow> ('g, 'i) event list \<times> string list" where
  "find_references env obj_path =
     (case analyze_obj env obj_path of
        (t1, v) \<Rightarrow>
          (if mtl_files v \<noteq> []
           then (case read_mtl_files env (dirname obj_path) [] (mtl_files v) of
                   (t2, texture_paths) \<Rightarrow> (t1 @ t2, texture_paths))
           else (t1, [])))"

text \<open>
  Lines 200 to 213, the loop of step 4 over \<open>texture_paths\<close>. \<open>if found_texture\<close> is
  Python's truth test: \<open>None\<close> and the empty string both take the \<open>else\<close> branch.
  \<^verbatim>\<open>
    for texture_ref in texture_paths:
        found_texture = self.find_texture_file(obj_dir, texture_ref)
        if found_texture:
            try:
                texture = o3d.io.read_image(found_texture)
                mesh.textures = [texture]
                self.log(...)
                break
            except Exception as e:
                self.log(...)
        else:
            self.log(...)
  \<close>
\<close>

fun manual_textures ::
  "('g, 'i) env \<Rightarrow> string \<Rightarrow> ('g, 'i) mesh \<Rightarrow> string list \<Rightarrow> ('g, 'i) event list \<times> ('g, 'i) mesh" where
  "manual_textures env obj_dir mesh [] = ([], mesh)"
| "manual_textures env obj_dir mesh (texture_ref # rest) =
     (case find_texture_file (path_exists env) obj_dir texture_ref of
        (probed, found) \<Rightarrow>
          (if found \<noteq> None \<and> found \<noteq> Some [] then
             (case read_image env (the found) of
                Some texture \<Rightarrow>
                  (map Exists probed @
                     [ReadImage (the found), Log (TextureLoaded (basename (the found)))],
                   mesh\<lparr>textures := [texture]\<rparr>)
              | None \<Rightarrow>
                  (case manual_textures env obj_dir mesh rest of
                     (t, m) \<Rightarrow>
                       (map Exists probed @
                          [ReadImage (the found), Log (TextureError (the found) ImageError)] @ t,
                        m)))
           else
             (case manual_textures env obj_dir mesh rest of
                (t, m) \<Rightarrow> (map Exists probed @ [Log (TextureNotFound texture_ref)] @ t, m))))"

text \<open>Lines 197 to 199: step 4 runs only on a mesh without textures.\<close>

definition handle_textures ::
  "('g, 'i) env \<Rightarrow> string \<Rightarrow> ('g, 'i) mesh \<Rightarrow> string list \<Rightarrow> ('g, 'i) event list \<times> ('g, 'i) mesh" where
  "handle_textures env obj_dir mesh texture_paths =
     (if length (textures mesh) = 0 \<and> texture_paths \<noteq> []
      then (case manual_textures env obj_dir mesh texture_paths of
              (t, m) \<Rightarrow> (Log ManualLoading # t, m))
      else ([], mesh))"

text \<open>Lines 215 to 221: step 5.\<close>

definition final_status :: "('g, 'i) mesh \<Rightarrow> ('g, 'i) event list \<times> ('g, 'i) mesh" where
  "final_status mesh =
     (if length (textures mesh) > 0 then ([Log ReadyTextured], mesh)
      else ([Log NoTextures], mesh\<lparr>painted := Some skin_tone\<rparr>))"

text \<open>Lines 189 to 195: step 3, the mesh as Open3D loads it, with its normals computed.\<close>

definition load_mesh :: "('g, 'i) env \<Rightarrow> string \<Rightarrow> ('g, 'i) mesh" where
  "load_mesh env obj_path =
     (let mesh = read_triangle_mesh env obj_path
      in mesh\<lparr>geometry := compute_vertex_normals env (geometry mesh)\<rparr>)"

definition load_obj_with_textures ::
  "('g, 'i) env \<Rightarrow> string \<Rightarrow> ('g, 'i) event list \<times> (exn + ('g, 'i) mesh)" where
  "load_obj_with_textures env obj_path =
     (if \<not> path_exists env obj_path
      then ([Log (LoadingObj obj_path), Exists obj_path], Inl FileNotFoundError)
      else
        (case find_references env obj_path of
           (t12, texture_paths) \<Rightarrow>
             (case handle_textures env (dirname obj_path) (load_mesh env obj_path) texture_paths of
                (t4, mesh) \<Rightarrow>
                  (case final_status mesh of
                     (t5, mesh') \<Rightarrow>
                       ([Log (LoadingObj obj_path), Exists obj_path] @ t12 @
                          [Log LoadingMesh, ReadMesh obj_path, Log MeshLoaded] @ t4 @ t5,
                        Inr mesh')))))"

text \<open>
  \<open>MeshGUI.visualize_mesh\<close> (lines 243 to 268): the mesh is added to the viewer. The
  viewer itself is Open3D's; its calls are taken to return.
\<close>

definition visualize_mesh :: "('g, 'i) mesh \<Rightarrow> ('g, 'i) event list" where
  "visualize_mesh mesh = [Log OpeningViewer, Show mesh, Log ViewerClosed]"

text \<open>
  \<open>MeshGUI.load_obj_mesh\<close> (lines 225 to 241), on the file name that the dialog
  returns (empty when the user cancels). The second component is \<open>self.mesh\<close>
  afterwards, \<open>None\<close> when it was not assigned.
\<close>

definition load_obj_mesh ::
  "('g, 'i) env \<Rightarrow> string \<Rightarrow> ('g, 'i) event list \<times> ('g, 'i) mesh option" where
  "load_obj_mesh env file_name =
     (if file_name \<noteq> [] then
        (case load_obj_with_textures env file_name of
           (t, Inr mesh) \<Rightarrow> (t @ visualize_mesh mesh, Some mesh)
         | (t, Inl e) \<Rightarrow> (t @ [Log (LoadError e)], None))
      else ([], None))"


section \<open>\<open>new.py\<close>: \<open>comprehensive_mesh_analysis_and_load\<close>\<close>

text \<open>
  The script does the same work in one function. Its parts are named here with the
  prefix \<open>cmal\<close>. Lines 24 to 31, the body of the loop over the lines of the OBJ file;
  \<open>has_mtl\<close> is set before the argument is extracted:
  \<^verbatim>\<open>
    line = line.strip()
    if line.startswith('mtllib'):
        has_mtl = True
        mtl_file = line.split(' ', 1)[1]
        mtl_files.append(mtl_file)
        print(f"   Found material library: {mtl_file}")
    elif line.startswith('vt'):
        has_texture_coords = True
  \<close>
\<close>

definition cmal_scan_obj_line :: "obj_vars \<Rightarrow> string \<Rightarrow> msg list \<times> obj_vars \<times> exn option" where
  "cmal_scan_obj_line v raw =
     (let line = strip raw in
      if startswith line ''mtllib'' then
        (case getitem (split_space1 line) 1 of
           Inl e \<Rightarrow> ([], v\<lparr>has_mtl := True\<rparr>, Some e)
         | Inr mtl_file \<Rightarrow>
             ([FoundMaterialLibrary mtl_file],
              v\<lparr>mtl_files := mtl_files v @ [mtl_file], has_mtl := True\<rparr>, None))
      else if startswith line ''vt'' then ([], v\<lparr>has_texture_coords := True\<rparr>, None)
      else ([], v, None))"

text \<open>Lines 16 to 36: step 1 and its two summary lines.\<close>

definition cmal_analyze_obj :: "('g, 'i) env \<Rightarrow> string \<Rightarrow> ('g, 'i) event list \<times> obj_vars" where
  "cmal_analyze_obj env obj_path =
     (case for_lines cmal_scan_obj_line obj_vars0 (open_lines env obj_path) of
        (t, v, Some e) \<Rightarrow>
          (Log (Step 1) # Open obj_path # map Log t @
             [Log (WarnObj e), Log (HasMaterialLibrary (has_mtl v)),
              Log (HasTextureCoords (has_texture_coords v))], v)
      | (t, v, None) \<Rightarrow>
          (Log (Step 1) # Open obj_path # map Log t @
             [Log (HasMaterialLibrary (has_mtl v)),
              Log (HasTextureCoords (has_texture_coords v))], v))"

text \<open>
  Lines 43 to 57, the body of the loop over \<open>mtl_files\<close>. The scan of one line (lines 49
  to 53) is the code of \<open>scan_mtl_line\<close>, up to the wording of the message.
\<close>

definition cmal_read_mtl ::
  "('g, 'i) env \<Rightarrow> string \<Rightarrow> string list \<Rightarrow> string \<Rightarrow> ('g, 'i) event list \<times> string list" where
  "cmal_read_mtl env obj_dir texture_files mtl_file =
     (let mtl_path = join obj_dir mtl_file in
      if path_exists env mtl_path then
        (case for_lines scan_mtl_line texture_files (open_lines env mtl_path) of
           (t, tf, Some e) \<Rightarrow>
             (Exists mtl_path # Log (Reading mtl_path) # Open mtl_path # map Log t @
                [Log (WarnMtl e)], tf)
         | (t, tf, None) \<Rightarrow>
             (Exists mtl_path # Log (Reading mtl_path) # Open mtl_path # map Log t, tf))
      else ([Exists mtl_path, Log (MtlNotFound mtl_path)], texture_files))"

fun cmal_read_mtl_files ::
  "('g, 'i) env \<Rightarrow> string \<Rightarrow> string list \<Rightarrow> string list \<Rightarrow> ('g, 'i) event list \<times> string list" where
  "cmal_read_mtl_files env obj_dir texture_files [] = ([], texture_files)"
| "cmal_read_mtl_files env obj_dir texture_files (mtl_file # rest) =
     (case cmal_read_mtl env obj_dir texture_files mtl_file of
        (t, tf) \<Rightarrow>
          (case cmal_read_mtl_files env obj_dir tf rest of (t', tf') \<Rightarrow> (t @ t', tf')))"

text \<open>Steps 1 and 2 (lines 15 to 57).\<close>

definition cmal_find_references :: "('g, 'i) env \<Rightarrow> string \<Rightarrow> ('g, 'i) event list \<times> string list" where
  "cmal_find_references env obj_path =
     (case cmal_analyze_obj env obj_path of
        (t1, v) \<Rightarrow>
          (if has_mtl v \<and> mtl_files v \<noteq> []
           then (case cmal_read_mtl_files env (dirname obj_path) [] (mtl_files v) of
                   (t2, texture_files) \<Rightarrow> (t1 @ Log (Step 2) # t2, texture_files))
           else (t1, [])))"

text \<open>
  Lines 77 to 83, the loop over the candidates of one reference; the candidates (lines
  65 to 75) are built by the code of \<open>possible_paths\<close>.
  \<^verbatim>\<open>
    for test_path in possible_paths:
        if os.path.exists(test_path):
            found_texture_path = test_path
            print(f"   Found texture: {test_path}")
            break
        else:
            print(f"   Not found: {test_path}")
  \<close>
\<close>

fun cmal_probe :: "(string \<Rightarrow> bool) \<Rightarrow> string list \<Rightarrow> ('g, 'i) event list \<times> string option" where
  "cmal_probe ex [] = ([], None)"
| "cmal_probe ex (test_path # rest) =
     (if ex test_path then ([Exists test_path, Log (PathFound test_path)], Some test_path)
      else (case cmal_probe ex rest of
              (t, found) \<Rightarrow> (Exists test_path # Log (PathNotFound test_path) # t, found)))"

text \<open>
  Lines 63 to 86, the loop over \<open>texture_files\<close>. \<open>found_texture_path\<close> is assigned only
  when a candidate exists, and \<open>if found_texture_path: break\<close> is Python's truth test.
\<close>

fun cmal_search ::
  "('g, 'i) env \<Rightarrow> string \<Rightarrow> string option \<Rightarrow> string list \<Rightarrow> ('g, 'i) event list \<times> string option" where
  "cmal_search env obj_dir found_texture_path [] = ([], found_texture_path)"
| "cmal_search env obj_dir found_texture_path (texture_file # rest) =
     (case cmal_probe (path_exists env) (possible_paths obj_dir texture_file) of
        (t, found) \<Rightarrow>
          (let found' = (case found of Some p \<Rightarrow> Some p | None \<Rightarrow> found_texture_path) in
           if found' \<noteq> None \<and> found' \<noteq> Some [] then (t, found')
           else (case cmal_search env obj_dir found' rest of (t', r) \<Rightarrow> (t @ t', r))))"

text \<open>Lines 59 to 86: step 3, which runs before the mesh is loaded.\<close>

definition cmal_find_texture ::
  "('g, 'i) env \<Rightarrow> string \<Rightarrow> string list \<Rightarrow> ('g, 'i) event list \<times> string option" where
  "cmal_find_texture env obj_dir texture_files =
     (if texture_files \<noteq> []
      then (case cmal_search env obj_dir None texture_files of (t, found) \<Rightarrow> (Log (Step 3) # t, found))
      else ([], None))"

text \<open>Lines 98 to 106: step 5, the texture loaded by hand on a mesh that has none.\<close>

definition cmal_manual ::
  "('g, 'i) env \<Rightarrow> ('g, 'i) mesh \<Rightarrow> string option \<Rightarrow> ('g, 'i) event list \<times> ('g, 'i) mesh" where
  "cmal_manual env mesh found_texture_path =
     (if length (textures mesh) = 0 \<and> found_texture_path \<noteq> None \<and> found_texture_path \<noteq> Some [] then
        (case read_image env (the found_texture_path) of
           Some texture \<Rightarrow>
             ([Log (Step 5), ReadImage (the found_texture_path), Log ManualLoaded],
              mesh\<lparr>textures := [texture]\<rparr>)
         | None \<Rightarrow>
             ([Log (Step 5), ReadImage (the found_texture_path), Log (ManualError ImageError)],
              mesh))
      else ([], mesh))"

text \<open>
  Lines 108 to 137: steps 6 and 7. Without a texture the viewer gets a new mesh with
  the vertices, triangles and normals of the loaded one, painted.
\<close>

definition cmal_visualize :: "('g, 'i) mesh \<Rightarrow> ('g, 'i) event list" where
  "cmal_visualize mesh =
     (if length (textures mesh) > 0
      then [Log (Step 6), Log ReadyTextured, Log (Step 7), Log (Displaying True), Show mesh]
      else [Log (Step 6), Log NoTextures, Log (Step 7), Log (Displaying False),
            Show \<lparr>geometry = geometry mesh, textures = [], painted = Some skin_tone\<rparr>])"

definition comprehensive_mesh_analysis_and_load ::
  "('g, 'i) env \<Rightarrow> string \<Rightarrow> ('g, 'i) event list \<times> ('g, 'i) mesh" where
  "comprehensive_mesh_analysis_and_load env obj_path =
     (case cmal_find_references env obj_path of
        (t12, texture_files) \<Rightarrow>
          (case cmal_find_texture env (dirname obj_path) texture_files of
             (t3, found_texture_path) \<Rightarrow>
               (case cmal_manual env (load_mesh env obj_path) found_texture_path of
                  (t5, mesh) \<Rightarrow>
                    ([Log Banner, Log (LoadingObj obj_path)] @ t12 @ t3 @
                       [Log (Step 4), ReadMesh obj_path, Log Vertices, Log Triangles,
                        Log (AutoLoaded (length (textures (load_mesh env obj_path))))] @
                       t5 @ cmal_visualize mesh,
                     mesh))))"

text \<open>The meshes handed to the viewer in a run, in order.\<close>

fun shown :: "('g, 'i) event list \<Rightarrow> ('g, 'i) mesh list" where
  "shown [] = []"
| "shown (Show m # t) = m # shown t"
| "shown (_ # t) = shown t"

text \<open>The calls of \<open>os.path.exists\<close> in a run, in order, and the images read.\<close>

fun probes :: "('g, 'i) event list \<Rightarrow> string list" where
  "probes [] = []"
| "probes (Exists p # t) = p # probes t"
| "probes (_ # t) = probes t"

fun images_read :: "('g, 'i) event list \<Rightarrow> string list" where
  "images_read [] = []"
| "images_read (ReadImage p # t) = p # images_read t"
| "images_read (_ # t) = images_read t"

text \<open>The messages of a run, in order.\<close>

fun logged :: "('g, 'i) event list \<Rightarrow> msg list" where
  "logged [] = []"
| "logged (Log m # t) = m # logged t"
| "logged (_ # t) = logged t"


section \<open>File systems and environments of the examples\<close>

text \<open>A directory \<open>d\<close> that holds \<open>tex.png\<close> and \<open>tex.JPG\<close>.\<close>

definition tex_png_and_JPG :: "string \<Rightarrow> bool" where
  "tex_png_and_JPG p = (p = ''d/tex.png'' \<or> p = ''d/tex.JPG'')"

text \<open>The same directory with one more file, which is no candidate of \<open>tex\<close>.\<close>

definition tex_png_JPG_and_notes :: "string \<Rightarrow> bool" where
  "tex_png_JPG_and_notes p = (p = ''d/tex.png'' \<or> p = ''d/tex.JPG'' \<or> p = ''d/notes.txt'')"

text \<open>An empty directory.\<close>

definition empty_dir :: "string \<Rightarrow> bool" where
  "empty_dir p = False"

text \<open>A directory that holds \<open>t.png\<close> and \<open>sub/t.png\<close>, and one that holds \<open>t.png\<close> only.\<close>

definition nested_and_flat :: "string \<Rightarrow> bool" where
  "nested_and_flat p = (p = ''d/sub/t.png'' \<or> p = ''d/t.png'')"

definition flat_only :: "string \<Rightarrow> bool" where
  "flat_only p = (p = ''d/t.png'')"

text \<open>
  An environment over a list of existing paths and the contents of the files, for a
  mesh that Open3D loads with the textures \<open>auto\<close>. An image is named by the path it was
  read from, and every image can be read.
\<close>

definition scene ::
  "string list \<Rightarrow> (string \<Rightarrow> string list \<times> bool) \<Rightarrow> string list \<Rightarrow> (unit, string) env" where
  "scene files contents auto =
     \<lparr>path_exists = (\<lambda>p. p \<in> set files),
      open_lines = contents,
      read_triangle_mesh = (\<lambda>p. \<lparr>geometry = (), textures = auto, painted = None\<rparr>),
      compute_vertex_normals = (\<lambda>g. g),
      read_image = (\<lambda>p. Some p)\<rparr>"

text \<open>
  The scenario of the specification: \<open>d/m.obj\<close> names \<open>mat.mtl\<close>, which names
  \<open>body.JPG\<close>; the directory holds \<open>body.jpg\<close>.
\<close>

definition body_contents :: "string \<Rightarrow> string list \<times> bool" where
  "body_contents p =
     (if p = ''d/m.obj'' then ([''mtllib mat.mtl''], False)
      else if p = ''d/mat.mtl'' then ([''map_Kd body.JPG''], False)
      else ([], True))"

definition body_files :: "string list" where
  "body_files = [''d/m.obj'', ''d/mat.mtl'', ''d/body.jpg'']"

text \<open>
  A descriptor whose first \<open>mtllib\<close> line has no argument, and one with a bare
  \<open>mtllib\<close> line between two complete ones, with a material file that has a bare
  \<open>map_Kd\<close> line between two complete ones.
\<close>

definition bare_first_contents :: "string \<Rightarrow> string list \<times> bool" where
  "bare_first_contents p =
     (if p = ''d/m.obj'' then ([''mtllib'', ''mtllib b.mtl''], False) else ([], True))"

definition bare_middle_contents :: "string \<Rightarrow> string list \<times> bool" where
  "bare_middle_contents p =
     (if p = ''d/m.obj'' then ([''mtllib a.mtl'', ''mtllib'', ''mtllib b.mtl''], False)
      else if p = ''d/a.mtl'' then ([''map_Kd x.png'', ''map_Kd'', ''map_Kd y.png''], False)
      else ([], True))"

text \<open>
  A descriptor with two material libraries, each with texture references, and the
  same files when the reading of the descriptor and of \<open>a.mtl\<close> fails after the lines
  shown.
\<close>

definition two_libs_contents :: "string \<Rightarrow> string list \<times> bool" where
  "two_libs_contents p =
     (if p = ''d/m.obj'' then ([''mtllib a.mtl'', ''vt 0 0'', ''mtllib b.mtl''], False)
      else if p = ''d/a.mtl'' then ([''newmtl one'', ''map_Kd x.png'', ''map_Kd y.png''], False)
      else if p = ''d/b.mtl'' then ([''map_Kd z.png''], False)
      else ([], True))"

definition failing_contents :: "string \<Rightarrow> string list \<times> bool" where
  "failing_contents p =
     (if p = ''d/m.obj'' then ([''mtllib a.mtl''], True)
      else if p = ''d/a.mtl'' then ([''map_Kd x.png''], True)
      else ([], True))"


section \<open>The words of the claims about parsing\<close>

text \<open>The lines of a file that begin with a keyword, once stripped, in file order.\<close>

definition keyword_lines :: "string \<Rightarrow> string list \<Rightarrow> string list" where
  "keyword_lines kw ls = filter (\<lambda>l. startswith (strip l) kw) ls"

text \<open>
  A line has an argument when, stripped, it contains a space; the argument is the text
  after the first space.
\<close>

definition has_argument :: "string \<Rightarrow> bool" where
  "has_argument l = (CHR '' '' \<in> set (strip l))"

definition argument :: "string \<Rightarrow> string" where
  "argument l = tl (dropWhile (\<lambda>c. c \<noteq> CHR '' '') (strip l))"

text \<open>
  The exception with which a scan ends: the one its loop raised, or \<open>OSError\<close> from the
  file when the loop raised none.
\<close>

definition scan_error :: "exn option \<Rightarrow> exn \<Rightarrow> exn" where
  "scan_error raised otherwise = (case raised of Some e \<Rightarrow> e | None \<Rightarrow> otherwise)"

text \<open>The environment in which every file ends after the lines it delivers, without failure.\<close>

definition without_failures :: "('g, 'i) env \<Rightarrow> ('g, 'i) env" where
  "without_failures env = env\<lparr>open_lines := (\<lambda>p. (fst (open_lines env p), False))\<rparr>"


section \<open>The resolver: order of the candidates\<close>

lemma possible_paths_eq:
  "possible_paths d r =
     [join d r, join d (basename r),
      join d (fst (splitext r) @ ''.jpg''), join d (fst (splitext r) @ ''.jpeg''),
      join d (fst (splitext r) @ ''.png''), join d (fst (splitext r) @ ''.bmp''),
      join d (fst (splitext r) @ ''.tga''), join d (fst (splitext r) @ ''.JPG''),
      join d (fst (splitext r) @ ''.JPEG''), join d (fst (splitext r) @ ''.PNG'')]"
  by (simp add: possible_paths_def extensions_def Let_def)

lemma first_existing_none: "\<forall>p\<in>set ps. \<not> ex p \<Longrightarrow> first_existing ex ps = (ps, None)"
  by (induction ps) auto

lemma first_existing_hit:
  "i < length ps \<Longrightarrow> ex (ps ! i) \<Longrightarrow> \<forall>j<i. \<not> ex (ps ! j) \<Longrightarrow>
   first_existing ex ps = (take (Suc i) ps, Some (ps ! i))"
proof (induction ps arbitrary: i)
  case Nil
  then show ?case by simp
next
  case (Cons p ps)
  show ?case
  proof (cases i)
    case 0
    with Cons.prems show ?thesis by simp
  next
    case (Suc k)
    with Cons.prems have "\<not> ex p" by auto
    moreover have "first_existing ex ps = (take (Suc k) ps, Some (ps ! k))"
      using Cons.prems Suc by (intro Cons.IH) auto
    ultimately show ?thesis using Suc by simp
  qed
qed

lemma probes_append: "probes (t @ u) = probes t @ probes u"
  by (induction t rule: probes.induct) auto

lemma cmal_probe_first_existing:
  "snd (cmal_probe ex ps) = snd (first_existing ex ps) \<and>
   probes (fst (cmal_probe ex ps)) = fst (first_existing ex ps)"
  by (induction ps) (auto split: prod.splits)

text \<open>
  Claim C1. The resolver probes, in this order, the reference joined to the directory,
  its base name joined to the directory, and the stem of the reference with each of the
  eight extensions in their fixed order. It returns the first candidate that exists,
  having probed exactly the candidates up to it, and \<open>None\<close> after probing all of them
  when none exists. When two extension candidates exist and nothing earlier does, the
  one whose extension comes first is returned. The inlined search of \<open>new.py\<close> probes
  the same paths and finds the same one.
\<close>

theorem find_texture_file_probe_order:
  "possible_paths d r =
     [join d r, join d (basename r)] @
     map (\<lambda>ext. join d (fst (splitext r) @ ext))
       [''.jpg'', ''.jpeg'', ''.png'', ''.bmp'', ''.tga'', ''.JPG'', ''.JPEG'', ''.PNG'']
   \<and> (\<forall>i < length (possible_paths d r).
        ex (possible_paths d r ! i) \<and> (\<forall>j<i. \<not> ex (possible_paths d r ! j)) \<longrightarrow>
        find_texture_file ex d r = (take (Suc i) (possible_paths d r), Some (possible_paths d r ! i)))
   \<and> ((\<forall>p\<in>set (possible_paths d r). \<not> ex p) \<longrightarrow>
        find_texture_file ex d r = (possible_paths d r, None))
   \<and> (\<forall>i j. i < j \<and> j < length extensions \<and>
        ex (join d (fst (splitext r) @ extensions ! i)) \<and>
        ex (join d (fst (splitext r) @ extensions ! j)) \<and>
        \<not> ex (join d r) \<and> \<not> ex (join d (basename r)) \<and>
        (\<forall>k<i. \<not> ex (join d (fst (splitext r) @ extensions ! k))) \<longrightarrow>
        snd (find_texture_file ex d r) = Some (join d (fst (splitext r) @ extensions ! i)))
   \<and> snd (cmal_probe ex (possible_paths d r) :: ('g, 'i) event list \<times> string option)
        = snd (find_texture_file ex d r)
   \<and> probes (fst (cmal_probe ex (possible_paths d r) :: ('g, 'i) event list \<times> string option))
        = fst (find_texture_file ex d r)"
proof (intro conjI allI impI)
  show "possible_paths d r =
     [join d r, join d (basename r)] @
     map (\<lambda>ext. join d (fst (splitext r) @ ext))
       [''.jpg'', ''.jpeg'', ''.png'', ''.bmp'', ''.tga'', ''.JPG'', ''.JPEG'', ''.PNG'']"
    by (simp add: possible_paths_eq)
next
  fix i
  assume "i < length (possible_paths d r)"
    and "ex (possible_paths d r ! i) \<and> (\<forall>j<i. \<not> ex (possible_paths d r ! j))"
  then show "find_texture_file ex d r = (take (Suc i) (possible_paths d r), Some (possible_paths d r ! i))"
    unfolding find_texture_file_def by (intro first_existing_hit) auto
next
  assume "\<forall>p\<in>set (possible_paths d r). \<not> ex p"
  then show "find_texture_file ex d r = (possible_paths d r, None)"
    unfolding find_texture_file_def by (rule first_existing_none)
next
  fix i j
  assume a: "i < j \<and> j < length extensions \<and>
        ex (join d (fst (splitext r) @ extensions ! i)) \<and>
        ex (join d (fst (splitext r) @ extensions ! j)) \<and>
        \<not> ex (join d r) \<and> \<not> ex (join d (basename r)) \<and>
        (\<forall>k<i. \<not> ex (join d (fst (splitext r) @ extensions ! k)))"
  let ?pp = "possible_paths d r"
  have pp: "?pp = [join d r, join d (basename r)] @ map (\<lambda>ext. join d (fst (splitext r) @ ext)) extensions"
    by (simp add: possible_paths_eq extensions_def)
  from a have i: "i < length extensions" by simp
  have len: "Suc (Suc i) < length ?pp" using i by (simp add: pp)
  have at: "\<And>k. k < length extensions \<Longrightarrow> ?pp ! Suc (Suc k) = join d (fst (splitext r) @ extensions ! k)"
    by (simp add: pp)
  have hit: "ex (?pp ! Suc (Suc i))" using a i by (simp add: at)
  have before: "\<forall>m<Suc (Suc i). \<not> ex (?pp ! m)"
  proof (intro allI impI)
    fix m assume m: "m < Suc (Suc i)"
    show "\<not> ex (?pp ! m)"
    proof (cases m)
      case 0
      then show ?thesis using a by (simp add: pp)
    next
      case (Suc m')
      show ?thesis
      proof (cases m')
        case 0
        then show ?thesis using a Suc by (simp add: pp)
      next
        case (Suc k)
        with \<open>m = Suc m'\<close> m have k: "k < i" by simp
        then have "k < length extensions" using i by simp
        then show ?thesis using a k Suc \<open>m = Suc m'\<close> by (simp add: at)
      qed
    qed
  qed
  have "first_existing ex ?pp = (take (Suc (Suc (Suc i))) ?pp, Some (?pp ! Suc (Suc i)))"
    using len hit before by (rule first_existing_hit)
  then show "snd (find_texture_file ex d r) = Some (join d (fst (splitext r) @ extensions ! i))"
    using i by (simp add: find_texture_file_def at)
next
  show "snd (cmal_probe ex (possible_paths d r) :: ('g, 'i) event list \<times> string option)
        = snd (find_texture_file ex d r)"
    by (simp add: find_texture_file_def cmal_probe_first_existing)
next
  show "probes (fst (cmal_probe ex (possible_paths d r) :: ('g, 'i) event list \<times> string option))
        = fst (find_texture_file ex d r)"
    by (simp add: find_texture_file_def cmal_probe_first_existing)
qed

theorem find_texture_file_probe_order_witness:
  "tex_png_and_JPG (possible_paths ''d'' ''tex'' ! 4) \<and>
   \<not> tex_png_and_JPG (possible_paths ''d'' ''tex'' ! 0) \<and>
   \<not> tex_png_and_JPG (possible_paths ''d'' ''tex'' ! 1) \<and>
   \<not> tex_png_and_JPG (possible_paths ''d'' ''tex'' ! 2) \<and>
   \<not> tex_png_and_JPG (possible_paths ''d'' ''tex'' ! 3) \<and>
   find_texture_file tex_png_and_JPG ''d'' ''tex'' =
     ([''d/tex'', ''d/tex'', ''d/tex.jpg'', ''d/tex.jpeg'', ''d/tex.png''], Some ''d/tex.png'')"
proof -
  have pp: "possible_paths ''d'' ''tex'' =
    [''d/tex'', ''d/tex'', ''d/tex.jpg'', ''d/tex.jpeg'', ''d/tex.png'', ''d/tex.bmp'',
     ''d/tex.tga'', ''d/tex.JPG'', ''d/tex.JPEG'', ''d/tex.PNG'']"
    by (simp add: possible_paths_eq join_def startswith_def endswith_def splitext_def rfind_def basename_def)
  have hit: "tex_png_and_JPG (possible_paths ''d'' ''tex'' ! 4)"
    by (simp add: pp tex_png_and_JPG_def)
  have before: "\<forall>j<4. \<not> tex_png_and_JPG (possible_paths ''d'' ''tex'' ! j)"
  proof (intro allI impI)
    fix j :: nat assume "j < 4"
    then consider "j = 0" | "j = 1" | "j = 2" | "j = 3" by linarith
    then show "\<not> tex_png_and_JPG (possible_paths ''d'' ''tex'' ! j)"
      by cases (simp_all add: pp tex_png_and_JPG_def)
  qed
  have len: "4 < length (possible_paths ''d'' ''tex'')" by (simp add: pp)
  have "find_texture_file tex_png_and_JPG ''d'' ''tex'' =
      (take (Suc 4) (possible_paths ''d'' ''tex''), Some (possible_paths ''d'' ''tex'' ! 4))"
    using find_texture_file_probe_order [of "''d''" "''tex''" tex_png_and_JPG,
        THEN conjunct2, THEN conjunct1, rule_format, of 4] len hit before
    by blast
  then show ?thesis by (simp add: pp tex_png_and_JPG_def)
qed


section \<open>The resolver: absence, determinism, base names\<close>

lemma first_existing_none_iff:
  "snd (first_existing ex ps) = None \<longleftrightarrow> (\<forall>p\<in>set ps. \<not> ex p)"
  by (induction ps) (auto split: prod.splits)

lemma first_existing_agree:
  "\<forall>p\<in>set ps. ex1 p = ex2 p \<Longrightarrow> first_existing ex1 ps = first_existing ex2 ps"
  by (induction ps) auto

lemma first_existing_probed_prefix:
  "fst (first_existing ex ps) = take (length (fst (first_existing ex ps))) ps"
  by (induction ps) (auto split: prod.splits)

lemma join_nonempty: "b \<noteq> [] \<Longrightarrow> join a b \<noteq> []"
  by (simp add: join_def)

lemma possible_paths_tex:
  "possible_paths ''d'' ''tex'' =
    [''d/tex'', ''d/tex'', ''d/tex.jpg'', ''d/tex.jpeg'', ''d/tex.png'', ''d/tex.bmp'',
     ''d/tex.tga'', ''d/tex.JPG'', ''d/tex.JPEG'', ''d/tex.PNG'']"
  by (simp add: possible_paths_eq join_def startswith_def endswith_def splitext_def
      rfind_def basename_def)

lemma possible_paths_sub_t:
  "possible_paths ''d'' ''sub/t.png'' =
    [''d/sub/t.png'', ''d/t.png'', ''d/sub/t.jpg'', ''d/sub/t.jpeg'', ''d/sub/t.png'',
     ''d/sub/t.bmp'', ''d/sub/t.tga'', ''d/sub/t.JPG'', ''d/sub/t.JPEG'', ''d/sub/t.PNG'']"
  by (simp add: possible_paths_eq join_def startswith_def endswith_def splitext_def
      rfind_def basename_def)

text \<open>
  Claim C8. When no candidate exists, the resolver returns \<open>None\<close>, after probing every
  candidate, and only then; it has no exceptional result. Its caller in
  \<open>load_obj_with_textures\<close> logs the reference as not found and goes on with the mesh
  unchanged.
\<close>

theorem find_texture_file_not_found:
  "(snd (find_texture_file (path_exists env) d r) = None
      \<longleftrightarrow> (\<forall>p\<in>set (possible_paths d r). \<not> path_exists env p))
   \<and> ((\<forall>p\<in>set (possible_paths d r). \<not> path_exists env p) \<longrightarrow>
        find_texture_file (path_exists env) d r = (possible_paths d r, None) \<and>
        manual_textures env d mesh [r] =
          (map Exists (possible_paths d r) @ [Log (TextureNotFound r)], mesh))"
proof (intro conjI impI)
  show "snd (find_texture_file (path_exists env) d r) = None
      \<longleftrightarrow> (\<forall>p\<in>set (possible_paths d r). \<not> path_exists env p)"
    by (simp add: find_texture_file_def first_existing_none_iff)
next
  assume none: "\<forall>p\<in>set (possible_paths d r). \<not> path_exists env p"
  then show "find_texture_file (path_exists env) d r = (possible_paths d r, None)"
    by (simp add: find_texture_file_def first_existing_none)
  then show "manual_textures env d mesh [r] =
          (map Exists (possible_paths d r) @ [Log (TextureNotFound r)], mesh)"
    by simp
qed

theorem find_texture_file_not_found_witness:
  "\<not> path_exists (scene [] body_contents []) ''d/tex'' \<and>
   find_texture_file (path_exists (scene [] body_contents [])) ''d'' ''tex'' =
     ([''d/tex'', ''d/tex'', ''d/tex.jpg'', ''d/tex.jpeg'', ''d/tex.png'', ''d/tex.bmp'',
       ''d/tex.tga'', ''d/tex.JPG'', ''d/tex.JPEG'', ''d/tex.PNG''], None)"
proof -
  have none: "\<forall>p\<in>set (possible_paths ''d'' ''tex''). \<not> path_exists (scene [] body_contents []) p"
    by (simp add: scene_def)
  have "find_texture_file (path_exists (scene [] body_contents [])) ''d'' ''tex'' =
          (possible_paths ''d'' ''tex'', None)"
    using find_texture_file_not_found [of "scene [] body_contents []" "''d''" "''tex''",
        THEN conjunct2, THEN mp, OF none]
    by blast
  then show ?thesis by (simp add: possible_paths_tex scene_def)
qed

text \<open>
  Claim C9. The result and the probes of the resolver depend on the directory, the
  reference and the existence of the candidate paths only: two existence states that
  agree on the candidates give the same run. The run's only effects are the existence
  tests it returns, each on a candidate, in the order of the candidates; it writes
  nothing.
\<close>

theorem find_texture_file_deterministic:
  "((\<forall>p\<in>set (possible_paths d r). ex1 p = ex2 p) \<longrightarrow>
      find_texture_file ex1 d r = find_texture_file ex2 d r)
   \<and> fst (find_texture_file ex1 d r) =
       take (length (fst (find_texture_file ex1 d r))) (possible_paths d r)"
  by (simp add: find_texture_file_def first_existing_agree first_existing_probed_prefix [symmetric])

theorem find_texture_file_deterministic_witness:
  "tex_png_and_JPG ''d/notes.txt'' \<noteq> tex_png_JPG_and_notes ''d/notes.txt'' \<and>
   find_texture_file tex_png_and_JPG ''d'' ''tex'' =
     find_texture_file tex_png_JPG_and_notes ''d'' ''tex''"
proof -
  have agree: "\<forall>p\<in>set (possible_paths ''d'' ''tex''). tex_png_and_JPG p = tex_png_JPG_and_notes p"
    by (simp add: possible_paths_tex tex_png_and_JPG_def tex_png_JPG_and_notes_def)
  have "find_texture_file tex_png_and_JPG ''d'' ''tex'' =
          find_texture_file tex_png_JPG_and_notes ''d'' ''tex''"
    using find_texture_file_deterministic [of "''d''" "''tex''" tex_png_and_JPG tex_png_JPG_and_notes,
        THEN conjunct1, THEN mp, OF agree] .
  then show ?thesis by (simp add: tex_png_and_JPG_def tex_png_JPG_and_notes_def)
qed

text \<open>
  Claim C3, as stated: whenever a file exists at the directory joined with the base
  name of the reference, that path is returned. It fails when the verbatim candidate
  exists too: for the reference \<open>sub/t.png\<close> in a directory that holds both
  \<open>sub/t.png\<close> and \<open>t.png\<close>, the resolver returns \<open>d/sub/t.png\<close>.
\<close>

theorem basename_candidate_counterexample:
  "nested_and_flat (join ''d'' (basename ''sub/t.png'')) \<and>
   snd (find_texture_file nested_and_flat ''d'' ''sub/t.png'') = Some ''d/sub/t.png'' \<and>
   join ''d'' (basename ''sub/t.png'') = ''d/t.png'' \<and>
   snd (find_texture_file nested_and_flat ''d'' ''sub/t.png'')
     \<noteq> Some (join ''d'' (basename ''sub/t.png''))"
proof -
  have b: "join ''d'' (basename ''sub/t.png'') = ''d/t.png''"
    by (simp add: join_def startswith_def endswith_def rfind_def basename_def)
  have f: "snd (find_texture_file nested_and_flat ''d'' ''sub/t.png'') = Some ''d/sub/t.png''"
    by (simp add: find_texture_file_def possible_paths_sub_t nested_and_flat_def)
  show ?thesis by (simp add: b f nested_and_flat_def)
qed

text \<open>
  Claim C3, amended: when a file exists at the directory joined with the base name of
  the reference, resolution succeeds; it returns the verbatim candidate when that
  exists, and the base-name candidate otherwise.
\<close>

theorem basename_candidate_second:
  "ex (join d (basename r)) \<Longrightarrow>
   snd (find_texture_file ex d r) = Some (if ex (join d r) then join d r else join d (basename r))"
  by (simp add: find_texture_file_def possible_paths_eq)

theorem basename_candidate_second_witness:
  "flat_only (join ''d'' (basename ''sub/t.png'')) \<and>
   snd (find_texture_file flat_only ''d'' ''sub/t.png'') = Some ''d/t.png''"
proof -
  have b: "join ''d'' (basename ''sub/t.png'') = ''d/t.png''"
    by (simp add: join_def startswith_def endswith_def rfind_def basename_def)
  have v: "join ''d'' ''sub/t.png'' = ''d/sub/t.png''"
    by (simp add: join_def startswith_def endswith_def)
  have e: "flat_only (join ''d'' (basename ''sub/t.png''))"
    by (simp add: b flat_only_def)
  from basename_candidate_second [of flat_only "''d''" "''sub/t.png''", OF e] show ?thesis
    using e by (simp add: b v flat_only_def)
qed


section \<open>The scenario of \<open>body.JPG\<close>\<close>

lemma scan_mtl_body:
  "scan_mtl_line tp ''map_Kd body.JPG'' =
     ([FoundTextureRef ''body.JPG''], tp @ [''body.JPG''], None)"
  by (simp add: scan_mtl_line_def strip_def isspace_def startswith_def split_space1_def
      getitem_def)

lemma scan_obj_mat:
  "scan_obj_line v ''mtllib mat.mtl'' =
     ([FoundMaterialLibrary ''mat.mtl''], v\<lparr>mtl_files := mtl_files v @ [''mat.mtl'']\<rparr>, None)"
  by (simp add: scan_obj_line_def strip_def isspace_def startswith_def split_space1_def
      getitem_def)

lemma cmal_scan_obj_mat:
  "cmal_scan_obj_line v ''mtllib mat.mtl'' =
     ([FoundMaterialLibrary ''mat.mtl''],
      v\<lparr>mtl_files := mtl_files v @ [''mat.mtl''], has_mtl := True\<rparr>, None)"
  by (simp add: cmal_scan_obj_line_def strip_def isspace_def startswith_def split_space1_def
      getitem_def)

lemma basename_body: "basename ''body.JPG'' = ''body.JPG''"
  by (simp add: basename_def rfind_def)

lemma splitext_body: "splitext ''body.JPG'' = (''body'', ''.JPG'')"
  by (simp add: splitext_def rfind_def)

lemma dirname_d_m_obj: "dirname ''d/m.obj'' = ''d''"
  by (simp add: dirname_def rfind_def rstrip_sep_def)

lemma body_JPG_resolves:
  assumes "ex (join d ''body.jpg'')" and "\<not> ex (join d ''body.JPG'')"
  shows "find_texture_file ex d ''body.JPG'' =
           ([join d ''body.JPG'', join d ''body.JPG'', join d ''body.jpg''],
            Some (join d ''body.jpg''))"
  using assms by (simp add: find_texture_file_def possible_paths_eq basename_body splitext_body)

lemma load_body:
  assumes "path_exists env obj"
    and "open_lines env obj = ([''mtllib mat.mtl''], False)"
    and "path_exists env (join (dirname obj) ''mat.mtl'')"
    and "open_lines env (join (dirname obj) ''mat.mtl'') = ([''map_Kd body.JPG''], False)"
    and "textures (read_triangle_mesh env obj) = []"
    and "path_exists env (join (dirname obj) ''body.jpg'')"
    and "\<not> path_exists env (join (dirname obj) ''body.JPG'')"
    and "read_image env (join (dirname obj) ''body.jpg'') = Some img"
  shows "snd (load_obj_with_textures env obj) = Inr ((load_mesh env obj)\<lparr>textures := [img]\<rparr>)"
  using assms
  by (simp add: load_obj_with_textures_def find_references_def analyze_obj_def for_lines_def
      scan_obj_mat obj_vars0_def read_mtl_def scan_mtl_body handle_textures_def load_mesh_def
      body_JPG_resolves join_nonempty final_status_def Let_def)

lemma cmal_body:
  assumes "open_lines env obj = ([''mtllib mat.mtl''], False)"
    and "path_exists env (join (dirname obj) ''mat.mtl'')"
    and "open_lines env (join (dirname obj) ''mat.mtl'') = ([''map_Kd body.JPG''], False)"
    and "textures (read_triangle_mesh env obj) = []"
    and "path_exists env (join (dirname obj) ''body.jpg'')"
    and "\<not> path_exists env (join (dirname obj) ''body.JPG'')"
    and "read_image env (join (dirname obj) ''body.jpg'') = Some img"
  shows "snd (comprehensive_mesh_analysis_and_load env obj) =
           (load_mesh env obj)\<lparr>textures := [img]\<rparr>"
  using assms
  by (simp add: comprehensive_mesh_analysis_and_load_def cmal_find_references_def
      cmal_analyze_obj_def for_lines_def cmal_scan_obj_mat obj_vars0_def cmal_read_mtl_def
      scan_mtl_body cmal_find_texture_def cmal_manual_def load_mesh_def possible_paths_eq
      basename_body splitext_body join_nonempty Let_def)

text \<open>
  Claim C2. The material file names \<open>body.JPG\<close>; the directory holds \<open>body.jpg\<close> and no
  \<open>body.JPG\<close>. The resolver probes \<open>body.JPG\<close> twice (the verbatim and the base-name
  candidate), then the stem with the first listed extension, \<open>.jpg\<close>, which exists and
  is returned: nothing but candidates of the list is ever compared with the file
  system. End to end, with a descriptor that names \<open>mat.mtl\<close> and a mesh loaded
  without textures, both loaders attach the image read from that path.
\<close>

theorem body_JPG_found_by_extension_list:
  assumes "path_exists env (join d ''body.jpg'')"
    and "\<not> path_exists env (join d ''body.JPG'')"
  shows "find_texture_file (path_exists env) d ''body.JPG'' =
           ([join d ''body.JPG'', join d ''body.JPG'', join d ''body.jpg''],
            Some (join d ''body.jpg''))
         \<and> join d ''body.jpg'' = join d (fst (splitext ''body.JPG'') @ extensions ! 0)
         \<and> (d = dirname obj \<and> path_exists env obj
              \<and> open_lines env obj = ([''mtllib mat.mtl''], False)
              \<and> path_exists env (join d ''mat.mtl'')
              \<and> open_lines env (join d ''mat.mtl'') = ([''map_Kd body.JPG''], False)
              \<and> textures (read_triangle_mesh env obj) = []
              \<and> read_image env (join d ''body.jpg'') = Some img
            \<longrightarrow> snd (load_obj_with_textures env obj)
                  = Inr ((load_mesh env obj)\<lparr>textures := [img]\<rparr>)
              \<and> snd (comprehensive_mesh_analysis_and_load env obj)
                  = (load_mesh env obj)\<lparr>textures := [img]\<rparr>)"
proof (intro conjI impI)
  show "find_texture_file (path_exists env) d ''body.JPG'' =
           ([join d ''body.JPG'', join d ''body.JPG'', join d ''body.jpg''],
            Some (join d ''body.jpg''))"
    using assms by (rule body_JPG_resolves)
next
  show "join d ''body.jpg'' = join d (fst (splitext ''body.JPG'') @ extensions ! 0)"
    by (simp add: splitext_body extensions_def)
next
  assume s: "d = dirname obj \<and> path_exists env obj
              \<and> open_lines env obj = ([''mtllib mat.mtl''], False)
              \<and> path_exists env (join d ''mat.mtl'')
              \<and> open_lines env (join d ''mat.mtl'') = ([''map_Kd body.JPG''], False)
              \<and> textures (read_triangle_mesh env obj) = []
              \<and> read_image env (join d ''body.jpg'') = Some img"
  then have d: "d = dirname obj" by simp
  show "snd (load_obj_with_textures env obj) = Inr ((load_mesh env obj)\<lparr>textures := [img]\<rparr>)"
    using s assms unfolding d by (intro load_body) simp_all
  show "snd (comprehensive_mesh_analysis_and_load env obj) = (load_mesh env obj)\<lparr>textures := [img]\<rparr>"
    using s assms unfolding d by (intro cmal_body) simp_all
qed

theorem body_JPG_found_by_extension_list_witness:
  "path_exists (scene body_files body_contents []) (join ''d'' ''body.jpg'') \<and>
   \<not> path_exists (scene body_files body_contents []) (join ''d'' ''body.JPG'') \<and>
   find_texture_file (path_exists (scene body_files body_contents [])) ''d'' ''body.JPG'' =
     ([''d/body.JPG'', ''d/body.JPG'', ''d/body.jpg''], Some ''d/body.jpg'') \<and>
   snd (load_obj_with_textures (scene body_files body_contents []) ''d/m.obj'') =
     Inr \<lparr>geometry = (), textures = [''d/body.jpg''], painted = None\<rparr> \<and>
   snd (comprehensive_mesh_analysis_and_load (scene body_files body_contents []) ''d/m.obj'') =
     \<lparr>geometry = (), textures = [''d/body.jpg''], painted = None\<rparr>"
proof -
  let ?env = "scene body_files body_contents []"
  have j: "join ''d'' ''body.jpg'' = ''d/body.jpg''" "join ''d'' ''body.JPG'' = ''d/body.JPG''"
    "join ''d'' ''mat.mtl'' = ''d/mat.mtl''"
    by (simp_all add: join_def startswith_def endswith_def)
  have h1: "path_exists ?env (join ''d'' ''body.jpg'')"
    by (simp add: j scene_def body_files_def)
  have h2: "\<not> path_exists ?env (join ''d'' ''body.JPG'')"
    by (simp add: j scene_def body_files_def)
  have s: "''d'' = dirname ''d/m.obj'' \<and> path_exists ?env ''d/m.obj''
              \<and> open_lines ?env ''d/m.obj'' = ([''mtllib mat.mtl''], False)
              \<and> path_exists ?env (join ''d'' ''mat.mtl'')
              \<and> open_lines ?env (join ''d'' ''mat.mtl'') = ([''map_Kd body.JPG''], False)
              \<and> textures (read_triangle_mesh ?env ''d/m.obj'') = []
              \<and> read_image ?env (join ''d'' ''body.jpg'') = Some ''d/body.jpg''"
    by (simp add: j dirname_d_m_obj scene_def body_files_def body_contents_def)
  note t = body_JPG_found_by_extension_list [OF h1 h2, of "''d/m.obj''" "''d/body.jpg''"]
  have m: "load_mesh ?env ''d/m.obj'' = \<lparr>geometry = (), textures = [], painted = None\<rparr>"
    by (simp add: load_mesh_def scene_def)
  from t s have
    "find_texture_file (path_exists ?env) ''d'' ''body.JPG'' =
       ([join ''d'' ''body.JPG'', join ''d'' ''body.JPG'', join ''d'' ''body.jpg''],
        Some (join ''d'' ''body.jpg''))"
    "snd (load_obj_with_textures ?env ''d/m.obj'') =
       Inr ((load_mesh ?env ''d/m.obj'')\<lparr>textures := [''d/body.jpg'']\<rparr>)"
    "snd (comprehensive_mesh_analysis_and_load ?env ''d/m.obj'') =
       (load_mesh ?env ''d/m.obj'')\<lparr>textures := [''d/body.jpg'']\<rparr>"
    by blast+
  then show ?thesis using h1 h2 by (simp add: j m)
qed


section \<open>The effects of the loaders\<close>

lemma shown_append: "shown (t @ u) = shown t @ shown u"
  by (induction t rule: shown.induct) auto

lemma images_read_append: "images_read (t @ u) = images_read t @ images_read u"
  by (induction t rule: images_read.induct) auto

lemma only_logs: "shown (map Log t) = [] \<and> probes (map Log t) = [] \<and> images_read (map Log t) = []"
  by (induction t) auto

lemma analyze_obj_effects:
  "shown (fst (analyze_obj env p)) = [] \<and> probes (fst (analyze_obj env p)) = [] \<and>
   images_read (fst (analyze_obj env p)) = []"
  by (simp add: analyze_obj_def case_prod_beta only_logs shown_append probes_append
      images_read_append split: option.splits)

lemma cmal_analyze_obj_effects:
  "shown (fst (cmal_analyze_obj env p)) = [] \<and> probes (fst (cmal_analyze_obj env p)) = [] \<and>
   images_read (fst (cmal_analyze_obj env p)) = []"
  by (simp add: cmal_analyze_obj_def case_prod_beta only_logs shown_append
      probes_append images_read_append split: option.splits)

lemma read_mtl_effects:
  "shown (fst (read_mtl env d tp m)) = [] \<and> probes (fst (read_mtl env d tp m)) = [join d m] \<and>
   images_read (fst (read_mtl env d tp m)) = []"
  by (simp add: read_mtl_def Let_def case_prod_beta only_logs shown_append probes_append
      images_read_append split: option.splits)

lemma cmal_read_mtl_effects:
  "shown (fst (cmal_read_mtl env d tp m)) = [] \<and>
   probes (fst (cmal_read_mtl env d tp m)) = [join d m] \<and>
   images_read (fst (cmal_read_mtl env d tp m)) = []"
  by (simp add: cmal_read_mtl_def Let_def case_prod_beta only_logs shown_append
      probes_append images_read_append split: option.splits)

lemma read_mtl_files_effects:
  "shown (fst (read_mtl_files env d tp ms)) = [] \<and>
   probes (fst (read_mtl_files env d tp ms)) = map (join d) ms \<and>
   images_read (fst (read_mtl_files env d tp ms)) = []"
  by (induction ms arbitrary: tp)
    (simp_all add: case_prod_beta read_mtl_effects shown_append probes_append
      images_read_append)

lemma cmal_read_mtl_files_effects:
  "shown (fst (cmal_read_mtl_files env d tp ms)) = [] \<and>
   probes (fst (cmal_read_mtl_files env d tp ms)) = map (join d) ms \<and>
   images_read (fst (cmal_read_mtl_files env d tp ms)) = []"
  by (induction ms arbitrary: tp)
    (simp_all add: case_prod_beta cmal_read_mtl_effects shown_append probes_append
      images_read_append)

lemma find_references_effects:
  "shown (fst (find_references env p)) = [] \<and>
   probes (fst (find_references env p)) =
     map (join (dirname p)) (mtl_files (snd (analyze_obj env p))) \<and>
   images_read (fst (find_references env p)) = []"
  by (simp add: find_references_def case_prod_beta analyze_obj_effects read_mtl_files_effects
      shown_append probes_append images_read_append)

lemma cmal_find_references_effects:
  "shown (fst (cmal_find_references env p)) = [] \<and>
   images_read (fst (cmal_find_references env p)) = []"
  by (simp add: cmal_find_references_def case_prod_beta cmal_analyze_obj_effects
      cmal_read_mtl_files_effects shown_append images_read_append)

lemma cmal_probe_effects:
  "shown (fst (cmal_probe ex ps)) = [] \<and> images_read (fst (cmal_probe ex ps)) = []"
  by (induction ps) (simp_all add: case_prod_beta)

lemma cmal_search_effects:
  "shown (fst (cmal_search env d found fs)) = [] \<and>
   images_read (fst (cmal_search env d found fs)) = []"
  by (induction fs arbitrary: found)
    (simp_all add: case_prod_beta Let_def cmal_probe_effects shown_append images_read_append)

lemma cmal_find_texture_effects:
  "shown (fst (cmal_find_texture env d fs)) = [] \<and>
   images_read (fst (cmal_find_texture env d fs)) = []"
  by (simp add: cmal_find_texture_def case_prod_beta cmal_search_effects)

lemma shown_map_Exists: "shown (map Exists ps) = []"
  by (induction ps) simp_all

lemma manual_textures_shown: "shown (fst (manual_textures env d mesh refs)) = []"
  by (induction refs)
    (simp_all add: case_prod_beta shown_append shown_map_Exists split: option.splits)

lemma handle_textures_shown: "shown (fst (handle_textures env d mesh refs)) = []"
  by (simp add: handle_textures_def case_prod_beta manual_textures_shown)

lemma load_obj_with_textures_shown: "shown (fst (load_obj_with_textures env p)) = []"
  by (simp add: load_obj_with_textures_def final_status_def case_prod_beta shown_append
      find_references_effects handle_textures_shown)


section \<open>A mesh that comes with its textures\<close>

lemma textures_load_mesh: "textures (load_mesh env p) = textures (read_triangle_mesh env p)"
  by (simp add: load_mesh_def Let_def)

lemma cmal_visualize_effects:
  "images_read (cmal_visualize m) = [] \<and>
   shown (cmal_visualize m) =
     [if length (textures m) > 0 then m
      else \<lparr>geometry = geometry m, textures = [], painted = Some skin_tone\<rparr>]"
  by (simp add: cmal_visualize_def)

text \<open>
  Claim C4, amended. When Open3D has attached a texture: \<open>load_obj_with_textures\<close> does
  nothing after reading the mesh but log that it is ready; the only paths it tests
  for existence are the descriptor and the material files, it reads no image, and it
  returns the mesh as loaded. \<open>comprehensive_mesh_analysis_and_load\<close> has probed the
  candidates before it loads the mesh, but reads no image either, and returns and
  shows the mesh as loaded.
\<close>

theorem auto_textures_kept:
  assumes "textures (read_triangle_mesh env obj_path) \<noteq> []"
  shows "(path_exists env obj_path \<longrightarrow>
            load_obj_with_textures env obj_path =
              ([Log (LoadingObj obj_path), Exists obj_path] @ fst (find_references env obj_path) @
               [Log LoadingMesh, ReadMesh obj_path, Log MeshLoaded, Log ReadyTextured],
               Inr (load_mesh env obj_path)) \<and>
            probes (fst (load_obj_with_textures env obj_path)) =
              obj_path # map (join (dirname obj_path)) (mtl_files (snd (analyze_obj env obj_path))) \<and>
            images_read (fst (load_obj_with_textures env obj_path)) = [])
         \<and> snd (comprehensive_mesh_analysis_and_load env obj_path) = load_mesh env obj_path
         \<and> images_read (fst (comprehensive_mesh_analysis_and_load env obj_path)) = []
         \<and> shown (fst (comprehensive_mesh_analysis_and_load env obj_path)) = [load_mesh env obj_path]"
proof (intro conjI impI)
  assume ex: "path_exists env obj_path"
  show l: "load_obj_with_textures env obj_path =
              ([Log (LoadingObj obj_path), Exists obj_path] @ fst (find_references env obj_path) @
               [Log LoadingMesh, ReadMesh obj_path, Log MeshLoaded, Log ReadyTextured],
               Inr (load_mesh env obj_path))"
    using assms ex
    by (simp add: load_obj_with_textures_def handle_textures_def final_status_def
        textures_load_mesh case_prod_beta)
  show "probes (fst (load_obj_with_textures env obj_path)) =
          obj_path # map (join (dirname obj_path)) (mtl_files (snd (analyze_obj env obj_path)))"
    by (simp add: l probes_append find_references_effects)
  show "images_read (fst (load_obj_with_textures env obj_path)) = []"
    by (simp add: l images_read_append find_references_effects)
next
  show m: "snd (comprehensive_mesh_analysis_and_load env obj_path) = load_mesh env obj_path"
    using assms
    by (simp add: comprehensive_mesh_analysis_and_load_def cmal_manual_def textures_load_mesh
        case_prod_beta)
  show "images_read (fst (comprehensive_mesh_analysis_and_load env obj_path)) = []"
    using assms
    by (simp add: comprehensive_mesh_analysis_and_load_def cmal_manual_def textures_load_mesh
        case_prod_beta images_read_append cmal_find_references_effects cmal_find_texture_effects
        cmal_visualize_effects)
  show "shown (fst (comprehensive_mesh_analysis_and_load env obj_path)) = [load_mesh env obj_path]"
    using assms
    by (simp add: comprehensive_mesh_analysis_and_load_def cmal_manual_def textures_load_mesh
        case_prod_beta shown_append cmal_find_references_effects cmal_find_texture_effects
        cmal_visualize_effects)
qed

lemma join_d:
  "join ''d'' ''body.jpg'' = ''d/body.jpg''" "join ''d'' ''body.JPG'' = ''d/body.JPG''"
  "join ''d'' ''mat.mtl'' = ''d/mat.mtl''"
  by (simp_all add: join_def startswith_def endswith_def)

lemma cmal_find_references_body:
  "cmal_find_references (scene body_files body_contents auto) ''d/m.obj'' =
     ([Log (Step 1), Open ''d/m.obj'', Log (FoundMaterialLibrary ''mat.mtl''),
       Log (HasMaterialLibrary True), Log (HasTextureCoords False), Log (Step 2),
       Exists ''d/mat.mtl'', Log (Reading ''d/mat.mtl''), Open ''d/mat.mtl'',
       Log (FoundTextureRef ''body.JPG'')], [''body.JPG''])"
  by (simp add: cmal_find_references_def cmal_analyze_obj_def for_lines_def cmal_scan_obj_mat
      obj_vars0_def cmal_read_mtl_def scan_mtl_body dirname_d_m_obj join_d scene_def
      body_files_def body_contents_def Let_def)

lemma possible_paths_body:
  "possible_paths ''d'' ''body.JPG'' =
    [''d/body.JPG'', ''d/body.JPG'', ''d/body.jpg'', ''d/body.jpeg'', ''d/body.png'',
     ''d/body.bmp'', ''d/body.tga'', ''d/body.JPG'', ''d/body.JPEG'', ''d/body.PNG'']"
  by (simp add: possible_paths_eq basename_body splitext_body join_def startswith_def endswith_def)

lemma cmal_find_texture_body:
  "cmal_find_texture (scene body_files body_contents auto) ''d'' [''body.JPG''] =
     ([Log (Step 3), Exists ''d/body.JPG'', Log (PathNotFound ''d/body.JPG''),
       Exists ''d/body.JPG'', Log (PathNotFound ''d/body.JPG''),
       Exists ''d/body.jpg'', Log (PathFound ''d/body.jpg'')], Some ''d/body.jpg'')"
  by (simp add: cmal_find_texture_def possible_paths_body scene_def body_files_def)

text \<open>
  Claim C4, as stated: with a texture attached by the loader, no texture candidate is
  probed. It fails for \<open>new.py\<close>, whose search (step 3) runs before the mesh is loaded
  (step 4): the three candidates of \<open>body.JPG\<close> are probed although the mesh comes with
  a texture.
\<close>

theorem probing_before_loading_counterexample:
  "textures (read_triangle_mesh (scene body_files body_contents [''auto.png'']) ''d/m.obj'')
     = [''auto.png''] \<and>
   probes (fst (comprehensive_mesh_analysis_and_load
                  (scene body_files body_contents [''auto.png'']) ''d/m.obj''))
     = [''d/mat.mtl'', ''d/body.JPG'', ''d/body.JPG'', ''d/body.jpg'']"
  by (simp add: comprehensive_mesh_analysis_and_load_def cmal_find_references_body
      cmal_find_texture_body dirname_d_m_obj cmal_manual_def load_mesh_def cmal_visualize_def
      probes_append) (simp add: scene_def)

theorem auto_textures_kept_witness:
  "textures (read_triangle_mesh (scene body_files body_contents [''auto.png'']) ''d/m.obj'') \<noteq> [] \<and>
   path_exists (scene body_files body_contents [''auto.png'']) ''d/m.obj'' \<and>
   probes (fst (load_obj_with_textures (scene body_files body_contents [''auto.png'']) ''d/m.obj''))
     = [''d/m.obj'', ''d/mat.mtl''] \<and>
   snd (load_obj_with_textures (scene body_files body_contents [''auto.png'']) ''d/m.obj'')
     = Inr \<lparr>geometry = (), textures = [''auto.png''], painted = None\<rparr> \<and>
   shown (fst (comprehensive_mesh_analysis_and_load
                 (scene body_files body_contents [''auto.png'']) ''d/m.obj''))
     = [\<lparr>geometry = (), textures = [''auto.png''], painted = None\<rparr>]"
proof -
  let ?env = "scene body_files body_contents [''auto.png'']"
  have h: "textures (read_triangle_mesh ?env ''d/m.obj'') \<noteq> []"
    by (simp add: scene_def)
  have e: "path_exists ?env ''d/m.obj''"
    by (simp add: scene_def body_files_def)
  have m: "load_mesh ?env ''d/m.obj'' = \<lparr>geometry = (), textures = [''auto.png''], painted = None\<rparr>"
    by (simp add: load_mesh_def scene_def)
  have a: "mtl_files (snd (analyze_obj ?env ''d/m.obj'')) = [''mat.mtl'']"
    by (simp add: analyze_obj_def for_lines_def scan_obj_mat obj_vars0_def scene_def
        body_contents_def)
  note t = auto_textures_kept [OF h]
  from t e have
    "load_obj_with_textures ?env ''d/m.obj'' =
       ([Log (LoadingObj ''d/m.obj''), Exists ''d/m.obj''] @ fst (find_references ?env ''d/m.obj'') @
        [Log LoadingMesh, ReadMesh ''d/m.obj'', Log MeshLoaded, Log ReadyTextured],
        Inr (load_mesh ?env ''d/m.obj''))"
    "probes (fst (load_obj_with_textures ?env ''d/m.obj'')) =
       ''d/m.obj'' # map (join (dirname ''d/m.obj'')) (mtl_files (snd (analyze_obj ?env ''d/m.obj'')))"
    "shown (fst (comprehensive_mesh_analysis_and_load ?env ''d/m.obj'')) = [load_mesh ?env ''d/m.obj'']"
    by blast+
  then show ?thesis using h e by (simp add: m a dirname_d_m_obj join_d)
qed


section \<open>A mesh without texture\<close>

lemma final_status_painted:
  "textures (snd (final_status m)) = [] \<Longrightarrow> painted (snd (final_status m)) = Some skin_tone"
  by (simp add: final_status_def split: if_splits)

lemma load_obj_with_textures_painted:
  assumes "snd (load_obj_with_textures env p) = Inr mesh" and "textures mesh = []"
  shows "painted mesh = Some skin_tone"
proof -
  let ?m = "snd (handle_textures env (dirname p) (load_mesh env p) (snd (find_references env p)))"
  from assms(1) have "mesh = snd (final_status ?m)"
    by (simp add: load_obj_with_textures_def case_prod_beta split: if_splits)
  with assms(2) show ?thesis by (simp add: final_status_painted)
qed

text \<open>
  Claim C5. In \<open>testing.py\<close> the mesh that \<open>load_obj_mesh\<close> hands to the viewer is the
  one \<open>load_obj_with_textures\<close> returns, and when it has no texture it is painted with
  the colour \<open>[0.7, 0.5, 0.3]\<close>. In \<open>new.py\<close>, when the loaded mesh ends without texture,
  the one mesh handed to the viewer is a copy of its geometry painted with that colour.
\<close>

theorem untextured_mesh_painted:
  "(\<forall>mesh. snd (load_obj_mesh env file_name) = Some mesh \<longrightarrow>
      snd (load_obj_with_textures env file_name) = Inr mesh \<and>
      shown (fst (load_obj_mesh env file_name)) = [mesh] \<and>
      (textures mesh = [] \<longrightarrow> painted mesh = Some skin_tone))
   \<and> (textures (snd (comprehensive_mesh_analysis_and_load env obj_path)) = [] \<longrightarrow>
        shown (fst (comprehensive_mesh_analysis_and_load env obj_path)) =
          [\<lparr>geometry = geometry (snd (comprehensive_mesh_analysis_and_load env obj_path)),
            textures = [], painted = Some skin_tone\<rparr>])"
proof (intro conjI allI impI)
  fix mesh
  assume a: "snd (load_obj_mesh env file_name) = Some mesh"
  obtain t r where l: "load_obj_with_textures env file_name = (t, r)"
    by (cases "load_obj_with_textures env file_name")
  from a l have r: "r = Inr mesh" and n: "file_name \<noteq> []"
    by (auto simp: load_obj_mesh_def split: if_splits sum.splits)
  show i: "snd (load_obj_with_textures env file_name) = Inr mesh"
    by (simp add: l r)
  have "shown t = []"
    using load_obj_with_textures_shown [of env file_name] by (simp add: l)
  then show "shown (fst (load_obj_mesh env file_name)) = [mesh]"
    using n by (simp add: load_obj_mesh_def l r visualize_mesh_def shown_append)
  assume "textures mesh = []"
  with i show "painted mesh = Some skin_tone"
    by (rule load_obj_with_textures_painted)
next
  assume "textures (snd (comprehensive_mesh_analysis_and_load env obj_path)) = []"
  then show "shown (fst (comprehensive_mesh_analysis_and_load env obj_path)) =
          [\<lparr>geometry = geometry (snd (comprehensive_mesh_analysis_and_load env obj_path)),
            textures = [], painted = Some skin_tone\<rparr>]"
    by (simp add: comprehensive_mesh_analysis_and_load_def case_prod_beta shown_append
        cmal_find_references_effects cmal_find_texture_effects cmal_visualize_effects
        cmal_manual_def split: if_splits option.splits)
qed

lemma find_references_lonely:
  "find_references (scene [''d/m.obj''] body_contents []) ''d/m.obj'' =
     ([Open ''d/m.obj'', Log (FoundMaterialLibrary ''mat.mtl''), Exists ''d/mat.mtl''], [])"
  by (simp add: find_references_def analyze_obj_def for_lines_def scan_obj_mat
      obj_vars0_def read_mtl_def dirname_d_m_obj join_d scene_def body_contents_def Let_def)

lemma cmal_find_references_lonely:
  "cmal_find_references (scene [''d/m.obj''] body_contents []) ''d/m.obj'' =
     ([Log (Step 1), Open ''d/m.obj'', Log (FoundMaterialLibrary ''mat.mtl''),
       Log (HasMaterialLibrary True), Log (HasTextureCoords False), Log (Step 2),
       Exists ''d/mat.mtl'', Log (MtlNotFound ''d/mat.mtl'')], [])"
  by (simp add: cmal_find_references_def cmal_analyze_obj_def for_lines_def cmal_scan_obj_mat
      obj_vars0_def cmal_read_mtl_def dirname_d_m_obj join_d scene_def body_contents_def Let_def)

theorem untextured_mesh_painted_witness:
  "snd (load_obj_mesh (scene [''d/m.obj''] body_contents []) ''d/m.obj'') =
     Some \<lparr>geometry = (), textures = [], painted = Some skin_tone\<rparr> \<and>
   shown (fst (load_obj_mesh (scene [''d/m.obj''] body_contents []) ''d/m.obj'')) =
     [\<lparr>geometry = (), textures = [], painted = Some skin_tone\<rparr>] \<and>
   textures (snd (comprehensive_mesh_analysis_and_load (scene [''d/m.obj''] body_contents [])
                    ''d/m.obj'')) = [] \<and>
   shown (fst (comprehensive_mesh_analysis_and_load (scene [''d/m.obj''] body_contents [])
                 ''d/m.obj'')) =
     [\<lparr>geometry = (), textures = [], painted = Some skin_tone\<rparr>]"
proof -
  let ?env = "scene [''d/m.obj''] body_contents []"
  let ?m = "\<lparr>geometry = (), textures = [], painted = Some skin_tone\<rparr> :: (unit, string) mesh"
  have e: "path_exists ?env ''d/m.obj''" by (simp add: scene_def)
  have lm: "load_mesh ?env ''d/m.obj'' = \<lparr>geometry = (), textures = [], painted = None\<rparr>"
    by (simp add: load_mesh_def scene_def)
  have l: "snd (load_obj_mesh ?env ''d/m.obj'') = Some ?m"
    using e
    by (simp add: load_obj_mesh_def load_obj_with_textures_def find_references_lonely
        handle_textures_def final_status_def lm dirname_d_m_obj)
  have c: "snd (comprehensive_mesh_analysis_and_load ?env ''d/m.obj'') =
             \<lparr>geometry = (), textures = [], painted = None\<rparr>"
    by (simp add: comprehensive_mesh_analysis_and_load_def cmal_find_references_lonely
        cmal_find_texture_def cmal_manual_def lm)
  have ct: "textures (snd (comprehensive_mesh_analysis_and_load ?env ''d/m.obj'')) = []"
    by (simp add: c)
  note t = untextured_mesh_painted [of ?env "''d/m.obj''" "''d/m.obj''"]
  from t l have "shown (fst (load_obj_mesh ?env ''d/m.obj'')) = [?m]" by blast
  moreover from t ct have "shown (fst (comprehensive_mesh_analysis_and_load ?env ''d/m.obj'')) =
          [\<lparr>geometry = geometry (snd (comprehensive_mesh_analysis_and_load ?env ''d/m.obj'')),
            textures = [], painted = Some skin_tone\<rparr>]" by blast
  ultimately show ?thesis using l ct by (simp add: c)
qed


section \<open>Loops that stop at an exception\<close>

lemma for_each_append:
  "for_each body s (xs @ ys) =
     (case for_each body s xs of
        (t, s', Some e) \<Rightarrow> (t, s', Some e)
      | (t, s', None) \<Rightarrow> (case for_each body s' ys of (t', r) \<Rightarrow> (t @ t', r)))"
  by (induction xs arbitrary: s) (auto split: prod.splits option.splits)

lemma for_lines_parts:
  "fst (for_lines body s f) = fst (for_each body s (fst f))"
  "fst (snd (for_lines body s f)) = fst (snd (for_each body s (fst f)))"
  "snd (snd (for_lines body s f)) =
     (case snd (snd (for_each body s (fst f))) of
        Some e \<Rightarrow> Some e | None \<Rightarrow> if snd f then Some OSError else None)"
  by (simp_all add: for_lines_def split: prod.splits option.splits)

lemma bare_mtllib:
  "strip l = ''mtllib'' \<Longrightarrow> scan_obj_line v l = ([], v, Some IndexError)"
  "strip l = ''mtllib'' \<Longrightarrow> cmal_scan_obj_line v l = ([], v\<lparr>has_mtl := True\<rparr>, Some IndexError)"
  by (simp_all add: scan_obj_line_def cmal_scan_obj_line_def startswith_def split_space1_def getitem_def)

lemma bare_map_Kd:
  "strip l = ''map_Kd'' \<Longrightarrow> scan_mtl_line tp l = ([], tp, Some IndexError)"
  by (simp add: scan_mtl_line_def startswith_def split_space1_def getitem_def)

lemma for_each_stops:
  assumes "\<And>s. \<exists>s'. body s l = ([], s', Some IndexError)"
  shows "fst (for_each body s (pre @ l # post)) = fst (for_each body s pre)"
    and "snd (snd (for_each body s (pre @ l # post))) =
           Some (scan_error (snd (snd (for_each body s pre))) IndexError)"
proof -
  obtain t s1 r where p: "for_each body s pre = (t, s1, r)" by (cases "for_each body s pre")
  obtain s2 where b: "body s1 l = ([], s2, Some IndexError)" using assms by blast
  show "fst (for_each body s (pre @ l # post)) = fst (for_each body s pre)"
    by (cases r) (simp_all add: for_each_append p b)
  show "snd (snd (for_each body s (pre @ l # post))) =
           Some (scan_error (snd (snd (for_each body s pre))) IndexError)"
    by (cases r) (simp_all add: for_each_append p b scan_error_def)
qed

lemma for_each_stops_vars:
  assumes "\<And>s. body s l = ([], s, Some IndexError)"
  shows "fst (snd (for_each body s (pre @ l # post))) = fst (snd (for_each body s pre))"
proof -
  obtain t s1 r where p: "for_each body s pre = (t, s1, r)" by (cases "for_each body s pre")
  show ?thesis by (cases r) (simp_all add: for_each_append p assms)
qed


section \<open>A keyword without argument\<close>

lemma analyze_obj_parts:
  "analyze_obj env p =
     (let r = for_lines scan_obj_line obj_vars0 (open_lines env p) in
      (Open p # map Log (fst r) @ (case snd (snd r) of Some e \<Rightarrow> [Log (WarnObj e)] | None \<Rightarrow> []),
       fst (snd r)))"
  by (simp add: analyze_obj_def case_prod_beta Let_def split: option.splits)

lemma cmal_analyze_obj_parts:
  "cmal_analyze_obj env p =
     (let r = for_lines cmal_scan_obj_line obj_vars0 (open_lines env p) in
      (Log (Step 1) # Open p # map Log (fst r) @
         (case snd (snd r) of Some e \<Rightarrow> [Log (WarnObj e)] | None \<Rightarrow> []) @
         [Log (HasMaterialLibrary (has_mtl (fst (snd r)))),
          Log (HasTextureCoords (has_texture_coords (fst (snd r))))],
       fst (snd r)))"
  by (simp add: cmal_analyze_obj_def case_prod_beta Let_def split: option.splits)

lemma read_mtl_parts:
  "read_mtl env d tp m =
     (let r = for_lines scan_mtl_line tp (open_lines env (join d m)) in
      if path_exists env (join d m) then
        (Exists (join d m) # Open (join d m) # map Log (fst r) @
           (case snd (snd r) of Some e \<Rightarrow> [Log (WarnMtl e)] | None \<Rightarrow> []),
         fst (snd r))
      else ([Exists (join d m)], tp))"
  by (simp add: read_mtl_def Let_def case_prod_beta split: option.splits)

lemma cmal_read_mtl_parts:
  "cmal_read_mtl env d tp m =
     (let r = for_lines scan_mtl_line tp (open_lines env (join d m)) in
      if path_exists env (join d m) then
        (Exists (join d m) # Log (Reading (join d m)) # Open (join d m) # map Log (fst r) @
           (case snd (snd r) of Some e \<Rightarrow> [Log (WarnMtl e)] | None \<Rightarrow> []),
         fst (snd r))
      else ([Exists (join d m), Log (MtlNotFound (join d m))], tp))"
  by (simp add: cmal_read_mtl_def Let_def case_prod_beta split: option.splits)

lemma logged_append: "logged (t @ u) = logged t @ logged u"
  by (induction t rule: logged.induct) auto

text \<open>
  Claim C10. A line that, stripped, is the bare keyword \<open>mtllib\<close> raises \<open>IndexError\<close>
  when its argument is extracted. The scan of the descriptor then ends there: its
  messages and its variables are those of the scan of the lines before that line, the
  lines after it and the state of the file play no part, and the handler logs the
  warning (with \<open>IndexError\<close>, unless an earlier line had already raised). The same
  holds in \<open>new.py\<close> for the list of material files, and in both files for a bare
  \<open>map_Kd\<close> line of a material file.
\<close>

theorem bare_keyword_truncates:
  fixes env :: "('g, 'i) env"
  shows
  "(strip l = ''mtllib'' \<and> open_lines env p = (pre @ l # post, failed) \<longrightarrow>
      (let before = (for_each scan_obj_line obj_vars0 pre);
           cmal_before = (for_each cmal_scan_obj_line obj_vars0 pre)
       in scan_obj_line v l = ([], v, Some IndexError) \<and>
          analyze_obj env p =
            (Open p # map Log (fst before) @ [Log (WarnObj (scan_error (snd (snd before)) IndexError))],
             fst (snd before)) \<and>
          mtl_files (snd (cmal_analyze_obj env p)) = mtl_files (fst (snd cmal_before)) \<and>
          WarnObj (scan_error (snd (snd cmal_before)) IndexError)
            \<in> set (logged (fst (cmal_analyze_obj env p)))))
   \<and> (strip l = ''map_Kd'' \<and> path_exists env (join d m) \<and>
       open_lines env (join d m) = (pre @ l # post, failed) \<longrightarrow>
      (let before = (for_each scan_mtl_line tp pre)
       in scan_mtl_line tp l = ([], tp, Some IndexError) \<and>
          read_mtl env d tp m =
            (Exists (join d m) # Open (join d m) # map Log (fst before) @
               [Log (WarnMtl (scan_error (snd (snd before)) IndexError))],
             fst (snd before)) \<and>
          cmal_read_mtl env d tp m =
            (Exists (join d m) # Log (Reading (join d m)) # Open (join d m) # map Log (fst before) @
               [Log (WarnMtl (scan_error (snd (snd before)) IndexError))],
             fst (snd before))))"
proof (intro conjI impI)
  assume a: "strip l = ''mtllib'' \<and> open_lines env p = (pre @ l # post, failed)"
  then have l: "strip l = ''mtllib''" and o: "open_lines env p = (pre @ l # post, failed)"
    by simp_all
  have s1: "\<And>s. \<exists>s'. scan_obj_line s l = ([], s', Some IndexError)"
    by (simp add: bare_mtllib l)
  have s2: "\<And>s. \<exists>s'. cmal_scan_obj_line s l = ([], s', Some IndexError)"
    by (simp add: bare_mtllib l)
  have v1: "fst (snd (for_each scan_obj_line obj_vars0 (pre @ l # post)))
        = fst (snd (for_each scan_obj_line obj_vars0 pre))"
    by (rule for_each_stops_vars) (simp add: bare_mtllib l)
  have v2: "mtl_files (fst (snd (for_each cmal_scan_obj_line obj_vars0 (pre @ l # post))))
        = mtl_files (fst (snd (for_each cmal_scan_obj_line obj_vars0 pre)))"
  proof -
    obtain t s1 r where q: "(for_each cmal_scan_obj_line obj_vars0 pre) = (t, s1, r)"
      by (cases "for_each cmal_scan_obj_line obj_vars0 pre ")
    show ?thesis by (cases r) (simp_all add: for_each_append q bare_mtllib l)
  qed
  show "let before = (for_each scan_obj_line obj_vars0 pre);
           cmal_before = (for_each cmal_scan_obj_line obj_vars0 pre)
       in scan_obj_line v l = ([], v, Some IndexError) \<and>
          analyze_obj env p =
            (Open p # map Log (fst before) @ [Log (WarnObj (scan_error (snd (snd before)) IndexError))],
             fst (snd before)) \<and>
          mtl_files (snd (cmal_analyze_obj env p)) = mtl_files (fst (snd cmal_before)) \<and>
          WarnObj (scan_error (snd (snd cmal_before)) IndexError)
            \<in> set (logged (fst (cmal_analyze_obj env p)))"
    unfolding Let_def
    by (simp add: bare_mtllib l analyze_obj_parts cmal_analyze_obj_parts for_lines_parts o Let_def
        for_each_stops [where body = scan_obj_line and l = l, OF s1]
        for_each_stops [where body = cmal_scan_obj_line and l = l, OF s2] v1 v2 logged_append)
next
  assume a: "strip l = ''map_Kd'' \<and> path_exists env (join d m) \<and>
       open_lines env (join d m) = (pre @ l # post, failed)"
  then have l: "strip l = ''map_Kd''" and e: "path_exists env (join d m)"
    and o: "open_lines env (join d m) = (pre @ l # post, failed)"
    by simp_all
  have s1: "\<And>s. \<exists>s'. scan_mtl_line s l = ([], s', Some IndexError)"
    by (simp add: bare_map_Kd l)
  have v1: "fst (snd (for_each scan_mtl_line tp (pre @ l # post)))
        = fst (snd (for_each scan_mtl_line tp pre))"
    by (rule for_each_stops_vars) (simp add: bare_map_Kd l)
  show "let before = (for_each scan_mtl_line tp pre)
       in scan_mtl_line tp l = ([], tp, Some IndexError) \<and>
          read_mtl env d tp m =
            (Exists (join d m) # Open (join d m) # map Log (fst before) @
               [Log (WarnMtl (scan_error (snd (snd before)) IndexError))],
             fst (snd before)) \<and>
          cmal_read_mtl env d tp m =
            (Exists (join d m) # Log (Reading (join d m)) # Open (join d m) # map Log (fst before) @
               [Log (WarnMtl (scan_error (snd (snd before)) IndexError))],
             fst (snd before))"
    unfolding Let_def
    by (simp add: bare_map_Kd l e read_mtl_parts cmal_read_mtl_parts for_lines_parts o Let_def
        for_each_stops [where body = scan_mtl_line and l = l, OF s1] v1)
qed

lemma scan_obj_a:
  "scan_obj_line v ''mtllib a.mtl'' =
     ([FoundMaterialLibrary ''a.mtl''], v\<lparr>mtl_files := mtl_files v @ [''a.mtl'']\<rparr>, None)"
  by (simp add: scan_obj_line_def strip_def isspace_def startswith_def split_space1_def
      getitem_def)

lemma scan_mtl_x:
  "scan_mtl_line tp ''map_Kd x.png'' =
     ([FoundTextureRef ''x.png''], tp @ [''x.png''], None)"
  by (simp add: scan_mtl_line_def strip_def isspace_def startswith_def split_space1_def
      getitem_def)

lemma strip_keywords: "strip ''mtllib'' = ''mtllib''" "strip ''map_Kd'' = ''map_Kd''"
  by (simp_all add: strip_def isspace_def)

lemma join_d_a: "join ''d'' ''a.mtl'' = ''d/a.mtl''"
  by (simp add: join_def startswith_def endswith_def)

theorem bare_keyword_truncates_witness:
  "strip ''mtllib'' = ''mtllib'' \<and>
   open_lines (scene [''d/m.obj'', ''d/a.mtl''] bare_middle_contents []) ''d/m.obj'' =
     ([''mtllib a.mtl''] @ ''mtllib'' # [''mtllib b.mtl''], False) \<and>
   analyze_obj (scene [''d/m.obj'', ''d/a.mtl''] bare_middle_contents []) ''d/m.obj'' =
     ([Open ''d/m.obj'', Log (FoundMaterialLibrary ''a.mtl''), Log (WarnObj IndexError)],
      \<lparr>mtl_files = [''a.mtl''], has_mtl = False, has_texture_coords = False\<rparr>) \<and>
   strip ''map_Kd'' = ''map_Kd'' \<and>
   path_exists (scene [''d/m.obj'', ''d/a.mtl''] bare_middle_contents []) (join ''d'' ''a.mtl'') \<and>
   open_lines (scene [''d/m.obj'', ''d/a.mtl''] bare_middle_contents []) (join ''d'' ''a.mtl'') =
     ([''map_Kd x.png''] @ ''map_Kd'' # [''map_Kd y.png''], False) \<and>
   read_mtl (scene [''d/m.obj'', ''d/a.mtl''] bare_middle_contents []) ''d'' [] ''a.mtl'' =
     ([Exists ''d/a.mtl'', Open ''d/a.mtl'', Log (FoundTextureRef ''x.png''),
       Log (WarnMtl IndexError)], [''x.png''])"
proof -
  let ?env = "scene [''d/m.obj'', ''d/a.mtl''] bare_middle_contents []"
  have h1: "strip ''mtllib'' = ''mtllib'' \<and>
     open_lines ?env ''d/m.obj'' = ([''mtllib a.mtl''] @ ''mtllib'' # [''mtllib b.mtl''], False)"
    by (simp add: strip_keywords scene_def bare_middle_contents_def)
  have h2: "strip ''map_Kd'' = ''map_Kd'' \<and> path_exists ?env (join ''d'' ''a.mtl'') \<and>
     open_lines ?env (join ''d'' ''a.mtl'') =
       ([''map_Kd x.png''] @ ''map_Kd'' # [''map_Kd y.png''], False)"
    by (simp add: strip_keywords join_d_a scene_def bare_middle_contents_def)
  have c1: "analyze_obj ?env ''d/m.obj'' =
     ([Open ''d/m.obj'', Log (FoundMaterialLibrary ''a.mtl''), Log (WarnObj IndexError)],
      \<lparr>mtl_files = [''a.mtl''], has_mtl = False, has_texture_coords = False\<rparr>)"
    using bare_keyword_truncates [where env = ?env and l = "''mtllib''" and p = "''d/m.obj''"
        and pre = "[''mtllib a.mtl'']" and post = "[''mtllib b.mtl'']" and failed = False,
        THEN conjunct1, THEN mp, OF h1]
    by (simp add: Let_def scan_obj_a scan_error_def obj_vars0_def)
  have c2: "read_mtl ?env ''d'' [] ''a.mtl'' =
     ([Exists ''d/a.mtl'', Open ''d/a.mtl'', Log (FoundTextureRef ''x.png''),
       Log (WarnMtl IndexError)], [''x.png''])"
    using bare_keyword_truncates [where env = ?env and l = "''map_Kd''" and d = "''d''"
        and m = "''a.mtl''" and tp = "[]"
        and pre = "[''map_Kd x.png'']" and post = "[''map_Kd y.png'']" and failed = False,
        THEN conjunct2, THEN mp, OF h2]
    by (simp add: Let_def scan_mtl_x scan_error_def join_d_a)
  from h1 h2 c1 c2 show ?thesis by blast
qed


section \<open>What the scans collect\<close>

lemma extract_argument:
  "getitem (split_space1 (strip l)) (Suc 0) =
     (if has_argument l then Inr (argument l) else Inl IndexError)"
  by (simp add: getitem_def split_space1_def has_argument_def argument_def)

lemma scan_obj_line_cases:
  "scan_obj_line v l =
     (if startswith (strip l) ''mtllib'' then
        (if has_argument l
         then ([FoundMaterialLibrary (argument l)],
               v\<lparr>mtl_files := mtl_files v @ [argument l]\<rparr>, None)
         else ([], v, Some IndexError))
      else if startswith (strip l) ''vt'' then ([], v\<lparr>has_texture_coords := True\<rparr>, None)
      else ([], v, None))"
  by (simp add: scan_obj_line_def Let_def extract_argument)

lemma cmal_scan_obj_line_cases:
  "cmal_scan_obj_line v l =
     (if startswith (strip l) ''mtllib'' then
        (if has_argument l
         then ([FoundMaterialLibrary (argument l)],
               v\<lparr>mtl_files := mtl_files v @ [argument l], has_mtl := True\<rparr>, None)
         else ([], v\<lparr>has_mtl := True\<rparr>, Some IndexError))
      else if startswith (strip l) ''vt'' then ([], v\<lparr>has_texture_coords := True\<rparr>, None)
      else ([], v, None))"
  by (simp add: cmal_scan_obj_line_def Let_def extract_argument)

lemma scan_mtl_line_cases:
  "scan_mtl_line tp l =
     (if startswith (strip l) ''map_Kd'' then
        (if has_argument l
         then ([FoundTextureRef (argument l)], tp @ [argument l], None)
         else ([], tp, Some IndexError))
      else ([], tp, None))"
  by (simp add: scan_mtl_line_def Let_def extract_argument)

lemma scan_obj_complete:
  "\<forall>l\<in>set (keyword_lines ''mtllib'' ls). has_argument l \<Longrightarrow>
   snd (snd (for_each scan_obj_line v ls)) = None \<and>
   mtl_files (fst (snd (for_each scan_obj_line v ls))) =
     mtl_files v @ map argument (keyword_lines ''mtllib'' ls)"
  by (induction ls arbitrary: v)
    (simp_all add: keyword_lines_def scan_obj_line_cases case_prod_beta)

lemma scan_mtl_complete:
  "\<forall>l\<in>set (keyword_lines ''map_Kd'' ls). has_argument l \<Longrightarrow>
   snd (snd (for_each scan_mtl_line tp ls)) = None \<and>
   fst (snd (for_each scan_mtl_line tp ls)) = tp @ map argument (keyword_lines ''map_Kd'' ls)"
  by (induction ls arbitrary: tp)
    (simp_all add: keyword_lines_def scan_mtl_line_cases case_prod_beta)

lemma scan_mtl_accumulates:
  "fst (snd (for_each scan_mtl_line tp ls)) = tp @ fst (snd (for_each scan_mtl_line [] ls))"
proof (induction ls arbitrary: tp)
  case Nil
  show ?case by simp
next
  case (Cons l ls)
  show ?case
  proof (cases "startswith (strip l) ''map_Kd''")
    case True
    show ?thesis
    proof (cases "has_argument l")
      case True
      have a: "scan_mtl_line tp l = ([FoundTextureRef (argument l)], tp @ [argument l], None)"
        and b: "scan_mtl_line [] l = ([FoundTextureRef (argument l)], [argument l], None)"
        using True \<open>startswith (strip l) ''map_Kd''\<close> by (simp_all add: scan_mtl_line_cases)
      show ?thesis
        using Cons.IH [of "tp @ [argument l]"] Cons.IH [of "[argument l]"]
        by (simp add: a b case_prod_beta)
    next
      case False
      have a: "scan_mtl_line tp l = ([], tp, Some IndexError)"
        and b: "scan_mtl_line [] l = ([], [], Some IndexError)"
        using False \<open>startswith (strip l) ''map_Kd''\<close> by (simp_all add: scan_mtl_line_cases)
      show ?thesis by (simp add: a b)
    qed
  next
    case False
    have a: "scan_mtl_line tp l = ([], tp, None)" and b: "scan_mtl_line [] l = ([], [], None)"
      using False by (simp_all add: scan_mtl_line_cases)
    show ?thesis using Cons.IH [of tp] by (simp add: a b case_prod_beta)
  qed
qed

text \<open>The two scans of the descriptor agree on the list of material files.\<close>

lemma cmal_scan_obj_same:
  "mtl_files v = mtl_files v' \<Longrightarrow> (mtl_files v \<noteq> [] \<longrightarrow> has_mtl v) \<Longrightarrow>
   mtl_files (fst (snd (for_each cmal_scan_obj_line v ls))) =
     mtl_files (fst (snd (for_each scan_obj_line v' ls))) \<and>
   (mtl_files (fst (snd (for_each cmal_scan_obj_line v ls))) \<noteq> [] \<longrightarrow>
      has_mtl (fst (snd (for_each cmal_scan_obj_line v ls))))"
proof (induction ls arbitrary: v v')
  case Nil
  then show ?case by simp
next
  case (Cons l ls)
  show ?case
  proof (cases "startswith (strip l) ''mtllib''")
    case True
    show ?thesis
    proof (cases "has_argument l")
      case True
      with \<open>startswith (strip l) ''mtllib''\<close> Cons.prems show ?thesis
        using Cons.IH [of "v\<lparr>mtl_files := mtl_files v @ [argument l], has_mtl := True\<rparr>"
            "v'\<lparr>mtl_files := mtl_files v' @ [argument l]\<rparr>"]
        by (simp add: scan_obj_line_cases cmal_scan_obj_line_cases case_prod_beta)
    next
      case False
      with \<open>startswith (strip l) ''mtllib''\<close> Cons.prems show ?thesis
        by (simp add: scan_obj_line_cases cmal_scan_obj_line_cases)
    qed
  next
    case False
    then show ?thesis
      using Cons.prems Cons.IH [of "v\<lparr>has_texture_coords := True\<rparr>" "v'\<lparr>has_texture_coords := True\<rparr>"]
        Cons.IH [of v v']
      by (simp add: scan_obj_line_cases cmal_scan_obj_line_cases case_prod_beta)
  qed
qed

lemma snd_analyze_obj:
  "snd (analyze_obj env p) = fst (snd (for_each scan_obj_line obj_vars0 (fst (open_lines env p))))"
  by (simp add: analyze_obj_parts Let_def for_lines_parts)

lemma snd_cmal_analyze_obj:
  "snd (cmal_analyze_obj env p) =
     fst (snd (for_each cmal_scan_obj_line obj_vars0 (fst (open_lines env p))))"
  by (simp add: cmal_analyze_obj_parts Let_def for_lines_parts)

lemma snd_read_mtl:
  "snd (read_mtl env d tp m) =
     (if path_exists env (join d m)
      then fst (snd (for_each scan_mtl_line tp (fst (open_lines env (join d m)))))
      else tp)"
  by (simp add: read_mtl_parts Let_def for_lines_parts)

lemma snd_cmal_read_mtl: "snd (cmal_read_mtl env d tp m) = snd (read_mtl env d tp m)"
  by (simp add: cmal_read_mtl_parts read_mtl_parts Let_def for_lines_parts)

lemma read_mtl_accumulates: "snd (read_mtl env d tp m) = tp @ snd (read_mtl env d [] m)"
  using scan_mtl_accumulates [of tp "fst (open_lines env (join d m))"]
  by (simp add: snd_read_mtl)

lemma read_mtl_files_concat:
  "snd (read_mtl_files env d tp ms) = tp @ concat (map (\<lambda>m. snd (read_mtl env d [] m)) ms)"
proof (induction ms arbitrary: tp)
  case Nil
  show ?case by simp
next
  case (Cons m ms)
  show ?case
    using Cons.IH [of "snd (read_mtl env d tp m)"] read_mtl_accumulates [of env d tp m]
    by (simp add: case_prod_beta)
qed

lemma snd_cmal_read_mtl_files:
  "snd (cmal_read_mtl_files env d tp ms) = snd (read_mtl_files env d tp ms)"
  by (induction ms arbitrary: tp) (simp_all add: case_prod_beta snd_cmal_read_mtl)

lemma mtl_files_same:
  "mtl_files (snd (cmal_analyze_obj env p)) = mtl_files (snd (analyze_obj env p)) \<and>
   (mtl_files (snd (cmal_analyze_obj env p)) \<noteq> [] \<longrightarrow> has_mtl (snd (cmal_analyze_obj env p)))"
  using cmal_scan_obj_same [of obj_vars0 obj_vars0 "fst (open_lines env p)"]
  by (simp add: snd_analyze_obj snd_cmal_analyze_obj obj_vars0_def)

lemma snd_find_references:
  "snd (find_references env p) =
     concat (map (\<lambda>m. snd (read_mtl env (dirname p) [] m)) (mtl_files (snd (analyze_obj env p))))"
  by (simp add: find_references_def case_prod_beta read_mtl_files_concat)

lemma snd_cmal_find_references:
  "snd (cmal_find_references env p) = snd (find_references env p)"
  using mtl_files_same [of env p]
  by (auto simp: cmal_find_references_def find_references_def case_prod_beta
      snd_cmal_read_mtl_files)


section \<open>Two material libraries\<close>

text \<open>
  Claim C7, amended. When exactly two of the lines read from the descriptor begin,
  once stripped, with \<open>mtllib\<close>, and each of the two has an argument, the scan yields
  exactly their two arguments, in file order, in both files. The texture references
  found are those of the first material file followed by those of the second, each
  file scanned on its own: a failure in one does not touch the other. A material file
  that exists, and whose \<open>map_Kd\<close> lines all have an argument, yields the arguments of
  all its \<open>map_Kd\<close> lines, in order; one that does not exist yields none.
\<close>

theorem two_mtllib_lines:
  assumes "keyword_lines ''mtllib'' (fst (open_lines env obj_path)) = [l1, l2]"
    and "has_argument l1" and "has_argument l2"
  shows "mtl_files (snd (analyze_obj env obj_path)) = [argument l1, argument l2]
       \<and> snd (find_references env obj_path) =
           snd (read_mtl env (dirname obj_path) [] (argument l1)) @
           snd (read_mtl env (dirname obj_path) [] (argument l2))
       \<and> mtl_files (snd (cmal_analyze_obj env obj_path)) = [argument l1, argument l2]
       \<and> snd (cmal_find_references env obj_path) = snd (find_references env obj_path)
       \<and> (path_exists env (join d m) \<and>
           (\<forall>l\<in>set (keyword_lines ''map_Kd'' (fst (open_lines env (join d m)))). has_argument l)
           \<longrightarrow> snd (read_mtl env d [] m) =
                 map argument (keyword_lines ''map_Kd'' (fst (open_lines env (join d m)))))
       \<and> (\<not> path_exists env (join d m) \<longrightarrow> snd (read_mtl env d [] m) = [])"
proof -
  have all: "\<forall>l\<in>set (keyword_lines ''mtllib'' (fst (open_lines env obj_path))). has_argument l"
    using assms by simp
  have m: "mtl_files (snd (analyze_obj env obj_path)) = [argument l1, argument l2]"
    using scan_obj_complete [OF all, of obj_vars0] assms(1)
    by (simp add: snd_analyze_obj obj_vars0_def)
  have r: "snd (find_references env obj_path) =
           snd (read_mtl env (dirname obj_path) [] (argument l1)) @
           snd (read_mtl env (dirname obj_path) [] (argument l2))"
    by (simp add: snd_find_references m)
  have c: "mtl_files (snd (cmal_analyze_obj env obj_path)) = [argument l1, argument l2]"
    using mtl_files_same [of env obj_path] m by simp
  have k: "path_exists env (join d m) \<and>
           (\<forall>l\<in>set (keyword_lines ''map_Kd'' (fst (open_lines env (join d m)))). has_argument l)
           \<longrightarrow> snd (read_mtl env d [] m) =
                 map argument (keyword_lines ''map_Kd'' (fst (open_lines env (join d m))))"
    using scan_mtl_complete [of "fst (open_lines env (join d m))" "[]"]
    by (simp add: snd_read_mtl)
  have n: "\<not> path_exists env (join d m) \<longrightarrow> snd (read_mtl env d [] m) = []"
    by (simp add: snd_read_mtl)
  from m r c k n show ?thesis by (simp add: snd_cmal_find_references)
qed

lemma strip_plain:
  "strip ''mtllib'' = ''mtllib''" "strip ''mtllib a.mtl'' = ''mtllib a.mtl''"
  "strip ''mtllib b.mtl'' = ''mtllib b.mtl''" "strip ''vt 0 0'' = ''vt 0 0''"
  "strip ''newmtl one'' = ''newmtl one''" "strip ''map_Kd x.png'' = ''map_Kd x.png''"
  "strip ''map_Kd y.png'' = ''map_Kd y.png''" "strip ''map_Kd z.png'' = ''map_Kd z.png''"
  by (simp_all add: strip_def isspace_def)

lemma join_d_libs: "join ''d'' ''a.mtl'' = ''d/a.mtl''" "join ''d'' ''b.mtl'' = ''d/b.mtl''"
  by (simp_all add: join_def startswith_def endswith_def)

text \<open>
  Claim C7, as stated: every descriptor with exactly two lines that begin with
  \<open>mtllib\<close> yields two entries. It fails when the first of them is the bare keyword:
  the scan stops there and no entry is kept.
\<close>

theorem two_mtllib_lines_counterexample:
  "keyword_lines ''mtllib''
     (fst (open_lines (scene [''d/m.obj''] bare_first_contents []) ''d/m.obj''))
     = [''mtllib'', ''mtllib b.mtl''] \<and>
   mtl_files (snd (analyze_obj (scene [''d/m.obj''] bare_first_contents []) ''d/m.obj'')) = [] \<and>
   mtl_files (snd (cmal_analyze_obj (scene [''d/m.obj''] bare_first_contents []) ''d/m.obj'')) = []"
  by (simp add: keyword_lines_def scene_def bare_first_contents_def strip_plain startswith_def
      snd_analyze_obj snd_cmal_analyze_obj scan_obj_line_cases cmal_scan_obj_line_cases
      has_argument_def obj_vars0_def)

theorem two_mtllib_lines_witness:
  "keyword_lines ''mtllib''
     (fst (open_lines (scene [''d/m.obj'', ''d/a.mtl'', ''d/b.mtl''] two_libs_contents [])
            ''d/m.obj''))
     = [''mtllib a.mtl'', ''mtllib b.mtl''] \<and>
   has_argument ''mtllib a.mtl'' \<and> has_argument ''mtllib b.mtl'' \<and>
   mtl_files (snd (analyze_obj (scene [''d/m.obj'', ''d/a.mtl'', ''d/b.mtl''] two_libs_contents [])
                     ''d/m.obj'')) = [''a.mtl'', ''b.mtl''] \<and>
   snd (find_references (scene [''d/m.obj'', ''d/a.mtl'', ''d/b.mtl''] two_libs_contents [])
          ''d/m.obj'') = [''x.png'', ''y.png'', ''z.png'']"
proof -
  let ?env = "scene [''d/m.obj'', ''d/a.mtl'', ''d/b.mtl''] two_libs_contents []"
  have k: "keyword_lines ''mtllib'' (fst (open_lines ?env ''d/m.obj''))
             = [''mtllib a.mtl'', ''mtllib b.mtl'']"
    by (simp add: keyword_lines_def scene_def two_libs_contents_def strip_plain startswith_def)
  have a: "has_argument ''mtllib a.mtl''" "has_argument ''mtllib b.mtl''"
    by (simp_all add: has_argument_def strip_plain)
  have g: "argument ''mtllib a.mtl'' = ''a.mtl''" "argument ''mtllib b.mtl'' = ''b.mtl''"
    by (simp_all add: argument_def strip_plain)
  have ra: "snd (read_mtl ?env ''d'' [] ''a.mtl'') = [''x.png'', ''y.png'']"
    by (simp add: snd_read_mtl join_d_libs scene_def two_libs_contents_def
        scan_mtl_line_cases strip_plain startswith_def has_argument_def argument_def)
  have rb: "snd (read_mtl ?env ''d'' [] ''b.mtl'') = [''z.png'']"
    by (simp add: snd_read_mtl join_d_libs scene_def two_libs_contents_def
        scan_mtl_line_cases strip_plain startswith_def has_argument_def argument_def)
  note t = two_mtllib_lines [OF k a]
  from t have "mtl_files (snd (analyze_obj ?env ''d/m.obj'')) =
                 [argument ''mtllib a.mtl'', argument ''mtllib b.mtl'']"
    and "snd (find_references ?env ''d/m.obj'') =
           snd (read_mtl ?env (dirname ''d/m.obj'') [] (argument ''mtllib a.mtl'')) @
           snd (read_mtl ?env (dirname ''d/m.obj'') [] (argument ''mtllib b.mtl''))"
    by blast+
  then show ?thesis using k a by (simp add: g dirname_d_m_obj ra rb)
qed


section \<open>A file that fails while it is read\<close>

lemma without_failures_simps:
  "path_exists (without_failures env) = path_exists env"
  "open_lines (without_failures env) p = (fst (open_lines env p), False)"
  "read_triangle_mesh (without_failures env) = read_triangle_mesh env"
  "compute_vertex_normals (without_failures env) = compute_vertex_normals env"
  "read_image (without_failures env) = read_image env"
  by (simp_all add: without_failures_def)

lemma manual_textures_without_failures:
  "manual_textures (without_failures env) d mesh refs = manual_textures env d mesh refs"
  by (induction refs)
    (simp_all add: without_failures_simps case_prod_beta cong: option.case_cong if_cong)

lemma handle_textures_without_failures:
  "handle_textures (without_failures env) d mesh refs = handle_textures env d mesh refs"
  by (simp add: handle_textures_def manual_textures_without_failures)

lemma load_mesh_without_failures: "load_mesh (without_failures env) p = load_mesh env p"
  by (simp add: load_mesh_def without_failures_simps)

lemma cmal_search_without_failures:
  "cmal_search (without_failures env) d found fs = cmal_search env d found fs"
  by (induction fs arbitrary: found)
    (simp_all add: without_failures_simps case_prod_beta Let_def cong: option.case_cong if_cong)

lemma cmal_find_texture_without_failures:
  "cmal_find_texture (without_failures env) d fs = cmal_find_texture env d fs"
  by (simp add: cmal_find_texture_def cmal_search_without_failures)

lemma cmal_manual_without_failures:
  "cmal_manual (without_failures env) mesh found = cmal_manual env mesh found"
  by (auto simp: cmal_manual_def without_failures_simps)

lemma find_references_without_failures:
  "snd (find_references (without_failures env) p) = snd (find_references env p)"
  by (simp add: snd_find_references snd_analyze_obj snd_read_mtl without_failures_simps
      cong: if_cong)

lemma snd_load_obj_with_textures:
  "snd (load_obj_with_textures env p) =
     (if path_exists env p
      then Inr (snd (final_status (snd (handle_textures env (dirname p) (load_mesh env p)
                                         (snd (find_references env p))))))
      else Inl FileNotFoundError)"
  by (simp add: load_obj_with_textures_def case_prod_beta)

lemma snd_cmal:
  "snd (comprehensive_mesh_analysis_and_load env p) =
     snd (cmal_manual env (load_mesh env p)
            (snd (cmal_find_texture env (dirname p) (snd (find_references env p)))))"
  by (simp add: comprehensive_mesh_analysis_and_load_def case_prod_beta snd_cmal_find_references)

text \<open>
  Claim C6. When reading the descriptor fails after some lines, the handler logs the
  warning and the variables are those of the scan of the lines read; the same holds
  for a material file, in both files. The load is not aborted: when the descriptor
  exists, \<open>load_obj_with_textures\<close> returns a mesh, made from the references found.
  The mesh that either loader returns is the one it returns when every file ends,
  without failure, after the lines it delivered.
\<close>

theorem read_failure_keeps_parsed_entries:
  "(snd (open_lines env p) \<longrightarrow>
      (let before = for_each scan_obj_line obj_vars0 (fst (open_lines env p)) in
       analyze_obj env p =
         (Open p # map Log (fst before) @ [Log (WarnObj (scan_error (snd (snd before)) OSError))],
          fst (snd before))) \<and>
      (let before = for_each cmal_scan_obj_line obj_vars0 (fst (open_lines env p)) in
       cmal_analyze_obj env p =
         (Log (Step 1) # Open p # map Log (fst before) @
            [Log (WarnObj (scan_error (snd (snd before)) OSError)),
             Log (HasMaterialLibrary (has_mtl (fst (snd before)))),
             Log (HasTextureCoords (has_texture_coords (fst (snd before))))],
          fst (snd before))))
   \<and> (snd (open_lines env (join d m)) \<and> path_exists env (join d m) \<longrightarrow>
      (let before = for_each scan_mtl_line tp (fst (open_lines env (join d m))) in
       read_mtl env d tp m =
         (Exists (join d m) # Open (join d m) # map Log (fst before) @
            [Log (WarnMtl (scan_error (snd (snd before)) OSError))],
          fst (snd before)) \<and>
       cmal_read_mtl env d tp m =
         (Exists (join d m) # Log (Reading (join d m)) # Open (join d m) # map Log (fst before) @
            [Log (WarnMtl (scan_error (snd (snd before)) OSError))],
          fst (snd before))))
   \<and> (path_exists env p \<longrightarrow>
        snd (load_obj_with_textures env p) =
          Inr (snd (final_status (snd (handle_textures env (dirname p) (load_mesh env p)
                                        (snd (find_references env p)))))))
   \<and> snd (load_obj_with_textures env p) = snd (load_obj_with_textures (without_failures env) p)
   \<and> snd (comprehensive_mesh_analysis_and_load env p) =
       snd (comprehensive_mesh_analysis_and_load (without_failures env) p)"
proof (intro conjI impI)
  assume f: "snd (open_lines env p)"
  show "let before = for_each scan_obj_line obj_vars0 (fst (open_lines env p)) in
       analyze_obj env p =
         (Open p # map Log (fst before) @ [Log (WarnObj (scan_error (snd (snd before)) OSError))],
          fst (snd before))"
    using f
    by (simp add: analyze_obj_parts Let_def for_lines_parts scan_error_def split: option.splits)
  show "let before = for_each cmal_scan_obj_line obj_vars0 (fst (open_lines env p)) in
       cmal_analyze_obj env p =
         (Log (Step 1) # Open p # map Log (fst before) @
            [Log (WarnObj (scan_error (snd (snd before)) OSError)),
             Log (HasMaterialLibrary (has_mtl (fst (snd before)))),
             Log (HasTextureCoords (has_texture_coords (fst (snd before))))],
          fst (snd before))"
    using f
    by (simp add: cmal_analyze_obj_parts Let_def for_lines_parts scan_error_def
        split: option.splits)
next
  assume "snd (open_lines env (join d m)) \<and> path_exists env (join d m)"
  then show "let before = for_each scan_mtl_line tp (fst (open_lines env (join d m))) in
       read_mtl env d tp m =
         (Exists (join d m) # Open (join d m) # map Log (fst before) @
            [Log (WarnMtl (scan_error (snd (snd before)) OSError))],
          fst (snd before)) \<and>
       cmal_read_mtl env d tp m =
         (Exists (join d m) # Log (Reading (join d m)) # Open (join d m) # map Log (fst before) @
            [Log (WarnMtl (scan_error (snd (snd before)) OSError))],
          fst (snd before))"
    by (simp add: read_mtl_parts cmal_read_mtl_parts Let_def for_lines_parts scan_error_def
        split: option.splits)
next
  assume "path_exists env p"
  then show "snd (load_obj_with_textures env p) =
          Inr (snd (final_status (snd (handle_textures env (dirname p) (load_mesh env p)
                                        (snd (find_references env p))))))"
    by (simp add: snd_load_obj_with_textures)
next
  show "snd (load_obj_with_textures env p) = snd (load_obj_with_textures (without_failures env) p)"
    by (simp add: snd_load_obj_with_textures without_failures_simps
        handle_textures_without_failures load_mesh_without_failures
        find_references_without_failures)
next
  show "snd (comprehensive_mesh_analysis_and_load env p) =
       snd (comprehensive_mesh_analysis_and_load (without_failures env) p)"
    by (simp add: snd_cmal cmal_manual_without_failures load_mesh_without_failures
        cmal_find_texture_without_failures find_references_without_failures)
qed

lemma possible_paths_x:
  "possible_paths ''d'' ''x.png'' =
    [''d/x.png'', ''d/x.png'', ''d/x.jpg'', ''d/x.jpeg'', ''d/x.png'', ''d/x.bmp'',
     ''d/x.tga'', ''d/x.JPG'', ''d/x.JPEG'', ''d/x.PNG'']"
  by (simp add: possible_paths_eq join_def startswith_def endswith_def splitext_def
      rfind_def basename_def)

theorem read_failure_keeps_parsed_entries_witness:
  "snd (open_lines (scene [''d/m.obj'', ''d/a.mtl'', ''d/x.png''] failing_contents []) ''d/m.obj'') \<and>
   analyze_obj (scene [''d/m.obj'', ''d/a.mtl'', ''d/x.png''] failing_contents []) ''d/m.obj'' =
     ([Open ''d/m.obj'', Log (FoundMaterialLibrary ''a.mtl''), Log (WarnObj OSError)],
      \<lparr>mtl_files = [''a.mtl''], has_mtl = False, has_texture_coords = False\<rparr>) \<and>
   snd (open_lines (scene [''d/m.obj'', ''d/a.mtl'', ''d/x.png''] failing_contents [])
          (join ''d'' ''a.mtl'')) \<and>
   path_exists (scene [''d/m.obj'', ''d/a.mtl'', ''d/x.png''] failing_contents [])
     (join ''d'' ''a.mtl'') \<and>
   read_mtl (scene [''d/m.obj'', ''d/a.mtl'', ''d/x.png''] failing_contents []) ''d'' [] ''a.mtl'' =
     ([Exists ''d/a.mtl'', Open ''d/a.mtl'', Log (FoundTextureRef ''x.png''),
       Log (WarnMtl OSError)], [''x.png'']) \<and>
   path_exists (scene [''d/m.obj'', ''d/a.mtl'', ''d/x.png''] failing_contents []) ''d/m.obj'' \<and>
   snd (load_obj_with_textures (scene [''d/m.obj'', ''d/a.mtl'', ''d/x.png''] failing_contents [])
          ''d/m.obj'') =
     Inr \<lparr>geometry = (), textures = [''d/x.png''], painted = None\<rparr>"
proof -
  let ?env = "scene [''d/m.obj'', ''d/a.mtl'', ''d/x.png''] failing_contents []"
  have h1: "snd (open_lines ?env ''d/m.obj'')"
    by (simp add: scene_def failing_contents_def)
  have h2: "snd (open_lines ?env (join ''d'' ''a.mtl'')) \<and> path_exists ?env (join ''d'' ''a.mtl'')"
    by (simp add: join_d_libs scene_def failing_contents_def)
  have h3: "path_exists ?env ''d/m.obj''"
    by (simp add: scene_def)
  have o1: "fst (open_lines ?env ''d/m.obj'') = [''mtllib a.mtl'']"
    by (simp add: scene_def failing_contents_def)
  have o2: "fst (open_lines ?env ''d/a.mtl'') = [''map_Kd x.png'']"
    by (simp add: scene_def failing_contents_def)
  note t = read_failure_keeps_parsed_entries [where env = ?env and p = "''d/m.obj''"
      and d = "''d''" and m = "''a.mtl''" and tp = "[]"]
  have c1: "analyze_obj ?env ''d/m.obj'' =
     ([Open ''d/m.obj'', Log (FoundMaterialLibrary ''a.mtl''), Log (WarnObj OSError)],
      \<lparr>mtl_files = [''a.mtl''], has_mtl = False, has_texture_coords = False\<rparr>)"
    using t [THEN conjunct1, THEN mp, OF h1, THEN conjunct1]
    by (simp add: Let_def o1 scan_obj_a scan_error_def obj_vars0_def)
  have c2: "read_mtl ?env ''d'' [] ''a.mtl'' =
     ([Exists ''d/a.mtl'', Open ''d/a.mtl'', Log (FoundTextureRef ''x.png''),
       Log (WarnMtl OSError)], [''x.png''])"
    using t [THEN conjunct2, THEN conjunct1, THEN mp, OF h2, unfolded Let_def, THEN conjunct1]
    by (simp add: join_d_libs o2 scan_mtl_x scan_error_def)
  have refs: "snd (find_references ?env ''d/m.obj'') = [''x.png'']"
    by (simp add: snd_find_references c1 c2 dirname_d_m_obj)
  have lm: "load_mesh ?env ''d/m.obj'' = \<lparr>geometry = (), textures = [], painted = None\<rparr>"
    by (simp add: load_mesh_def scene_def)
  have ht: "snd (handle_textures ?env ''d'' \<lparr>geometry = (), textures = [], painted = None\<rparr> [''x.png''])
      = \<lparr>geometry = (), textures = [''d/x.png''], painted = None\<rparr>"
    by (simp add: handle_textures_def find_texture_file_def possible_paths_x scene_def)
  have c3: "snd (load_obj_with_textures ?env ''d/m.obj'') =
     Inr \<lparr>geometry = (), textures = [''d/x.png''], painted = None\<rparr>"
    using t [THEN conjunct2, THEN conjunct2, THEN conjunct1, THEN mp, OF h3]
    by (simp add: refs lm dirname_d_m_obj ht final_status_def)
  from h1 h2 h3 c1 c2 c3 show ?thesis by blast
qed

end
